theory Spec2Isabelle
  imports Main "HOL-Library.Sublist" "HOL-Library.AList"
begin

section \<open>Values of the host language\<close>

text \<open>
  The development embeds \<^verbatim>\<open>src/util.js\<close> of fs-nextra. A path is a JavaScript string.
  An error raised by the filesystem layer is an object with a \<^verbatim>\<open>code\<close> and a
  \<^verbatim>\<open>message\<close>; what a rejected promise carries is any thrown value: \<^verbatim>\<open>null\<close>
  (thrown by \<^verbatim>\<open>fixWinEPERM\<close> and by \<^verbatim>\<open>removeDir\<close>), a filesystem error, an
  \<^verbatim>\<open>Error\<close> made with \<^verbatim>\<open>new Error(msg)\<close>, or a bare string.
\<close>

type_synonym path = string

record fs_error =
  code :: string
  message :: string

datatype thrown = Null | FsError fs_error | JsError string | JsString string

datatype kind = File | Directory | SymbolicLink | CharacterDevice | BlockDevice | FIFO | Socket

record stats =
  st_kind :: kind
  st_mode :: nat

definition isDirectory :: "stats \<Rightarrow> bool" where
  "isDirectory st = (st_kind st = Directory)"

definition isFile :: "stats \<Rightarrow> bool" where
  "isFile st = (st_kind st = File)"

definition isSymbolicLink :: "stats \<Rightarrow> bool" where
  "isSymbolicLink st = (st_kind st = SymbolicLink)"

definition isCharacterDevice :: "stats \<Rightarrow> bool" where
  "isCharacterDevice st = (st_kind st = CharacterDevice)"

definition isBlockDevice :: "stats \<Rightarrow> bool" where
  "isBlockDevice st = (st_kind st = BlockDevice)"

text \<open>
  A promise that settles is a result (\<open>Inl\<close> the rejection) together with the filesystem
  it leaves behind; \<open>None\<close> is a promise that never settles.
\<close>

type_synonym ('a, 's) promise = "((thrown + 'a) \<times> 's) option"

section \<open>Strings: \<^verbatim>\<open>indexOf\<close>, \<^verbatim>\<open>split\<close>, \<^verbatim>\<open>replace\<close>\<close>

fun indexOf_from :: "string \<Rightarrow> string \<Rightarrow> int \<Rightarrow> int" where
  "indexOf_from pat [] i = (if pat = [] then i else - 1)"
| "indexOf_from pat (c # cs) i = (if prefix pat (c # cs) then i else indexOf_from pat cs (i + 1))"

definition indexOf :: "string \<Rightarrow> string \<Rightarrow> int" where
  "indexOf s pat = indexOf_from pat s 0"

function split_from :: "string \<Rightarrow> string \<Rightarrow> string \<Rightarrow> string list" where
  "split_from sp acc [] = [rev acc]"
| "split_from sp acc (c # cs) =
     (if sp \<noteq> [] \<and> prefix sp (c # cs)
      then rev acc # split_from sp [] (drop (length sp - 1) cs)
      else split_from sp (c # acc) cs)"
  by pat_completeness auto
termination
  by (relation "measure (\<lambda>(sp, acc, s). length s)") auto

definition split_js :: "string \<Rightarrow> string \<Rightarrow> string list" where
  \<comment> \<open>\<^verbatim>\<open>s.split(sp)\<close> for a string separator\<close>
  "split_js s sp = (if sp = [] then map (\<lambda>c. [c]) s else split_from sp [] s)"

fun joinWith :: "string \<Rightarrow> string list \<Rightarrow> string" where
  "joinWith sp [] = []"
| "joinWith sp [x] = x"
| "joinWith sp (x # y # ys) = x @ sp @ joinWith sp (y # ys)"

text \<open>
  \<^verbatim>\<open>GetSubstitution\<close> of the language standard, for a match without capture groups:
  in the replacement text \<^verbatim>\<open>$$\<close> stands for one dollar sign, \<^verbatim>\<open>$&\<close> for the matched
  text, \<^verbatim>\<open>$`\<close> for the text in front of the match and \<^verbatim>\<open>$'\<close> for the text behind it; any
  other character, and a dollar sign followed by anything else, is copied.
\<close>

fun getSubstitution :: "string \<Rightarrow> string \<Rightarrow> string \<Rightarrow> string \<Rightarrow> string" where
  "getSubstitution matched front back [] = []"
| "getSubstitution matched front back [c] = [c]"
| "getSubstitution matched front back (c # d # rest) =
     (if c = CHR ''$'' \<and> d = CHR ''$'' then CHR ''$'' # getSubstitution matched front back rest
      else if c = CHR ''$'' \<and> d = CHR ''&'' then matched @ getSubstitution matched front back rest
      else if c = CHR ''$'' \<and> d = CHR 0x60 then front @ getSubstitution matched front back rest
      else if c = CHR ''$'' \<and> d = CHR 0x27 then back @ getSubstitution matched front back rest
      else c # getSubstitution matched front back (d # rest))"

definition replace_js :: "string \<Rightarrow> string \<Rightarrow> string \<Rightarrow> string" where
  \<comment> \<open>\<^verbatim>\<open>s.replace(pat, tmpl)\<close> for a string pattern: the first occurrence only\<close>
  "replace_js s pat tmpl =
     (let i = indexOf s pat in
      if i < 0 then s
      else (let front = take (nat i) s; back = drop (nat i + length pat) s
            in front @ getSubstitution pat front back tmpl @ back))"

fun replace_all_char :: "char \<Rightarrow> string \<Rightarrow> string \<Rightarrow> string \<Rightarrow> string" where
  \<comment> \<open>\<^verbatim>\<open>s.replace(/c/g, tmpl)\<close> for a one-character pattern; \<open>front\<close> is the text already scanned\<close>
  "replace_all_char ch tmpl front [] = []"
| "replace_all_char ch tmpl front (c # cs) =
     (if c = ch then getSubstitution [c] front cs tmpl @ replace_all_char ch tmpl (front @ [c]) cs
      else c # replace_all_char ch tmpl (front @ [c]) cs)"

section \<open>The \<^verbatim>\<open>path\<close> module (POSIX)\<close>

definition sep :: string where
  "sep = ''/''"

definition isAbsolute :: "path \<Rightarrow> bool" where
  "isAbsolute p = (p \<noteq> [] \<and> hd p = CHR ''/'')"

fun normalizeSegs :: "bool \<Rightarrow> string list \<Rightarrow> string list \<Rightarrow> string list" where
  "normalizeSegs allowAboveRoot res [] = res"
| "normalizeSegs allowAboveRoot res (seg # segs) =
     (if seg = [] \<or> seg = ''.'' then normalizeSegs allowAboveRoot res segs
      else if seg = ''..'' then
        (if res \<noteq> [] \<and> last res \<noteq> ''..'' then normalizeSegs allowAboveRoot (butlast res) segs
         else if allowAboveRoot then normalizeSegs allowAboveRoot (res @ [''..'']) segs
         else normalizeSegs allowAboveRoot res segs)
      else normalizeSegs allowAboveRoot (res @ [seg]) segs)"

definition normalizeString :: "path \<Rightarrow> bool \<Rightarrow> path" where
  "normalizeString p allowAboveRoot = joinWith ''/'' (normalizeSegs allowAboveRoot [] (split_js p ''/''))"

definition normalize_path :: "path \<Rightarrow> path" where
  "normalize_path p =
     (if p = [] then ''.''
      else (let isAbs = (hd p = CHR ''/''); trailingSeparator = (last p = CHR ''/'');
                q = normalizeString p (\<not> isAbs)
            in if q = [] then (if isAbs then ''/'' else if trailingSeparator then ''./'' else ''.'')
               else (let q' = (if trailingSeparator then q @ ''/'' else q)
                     in if isAbs then ''/'' @ q' else q')))"

definition join :: "path list \<Rightarrow> path" where
  "join args =
     (let parts = filter (\<lambda>a. a \<noteq> []) args
      in if parts = [] then ''.'' else normalize_path (joinWith ''/'' parts))"

fun resolve_acc :: "path list \<Rightarrow> path \<Rightarrow> path \<times> bool" where
  "resolve_acc [] acc = (acc, False)"
| "resolve_acc (p # ps) acc =
     (if p = [] then resolve_acc ps acc
      else if hd p = CHR ''/'' then (p @ ''/'' @ acc, True)
      else resolve_acc ps (p @ ''/'' @ acc))"

definition resolve :: "path \<Rightarrow> path list \<Rightarrow> path" where
  \<comment> \<open>\<^verbatim>\<open>resolve(...args)\<close> in a process whose working directory is \<open>cwd\<close>\<close>
  "resolve cwd args =
     (case resolve_acc (rev args @ [cwd]) [] of
        (rp, resolvedAbsolute) \<Rightarrow>
          (let q = normalizeString rp (\<not> resolvedAbsolute)
           in if resolvedAbsolute then ''/'' @ q else if q \<noteq> [] then q else ''.''))"

definition dirname :: "path \<Rightarrow> path" where
  "dirname p =
     (if p = [] then ''.''
      else (let hasRoot = (hd p = CHR ''/'');
                r = dropWhile (\<lambda>c. c \<noteq> CHR ''/'') (dropWhile (\<lambda>c. c = CHR ''/'') (rev (tl p)))
            in if r = [] then (if hasRoot then ''/'' else ''.'')
               else if hasRoot \<and> tl r = [] then ''//''
               else hd p # rev (tl r)))"

definition basename :: "path \<Rightarrow> string" where
  "basename p = rev (takeWhile (\<lambda>c. c \<noteq> CHR ''/'') (dropWhile (\<lambda>c. c = CHR ''/'') (rev p)))"

section \<open>Options and the filesystem access layer\<close>

text \<open>
  The options object of \<^verbatim>\<open>copy\<close> as the caller hands it over, and as \<^verbatim>\<open>ncp\<close> completes
  it. \<open>u_filter\<close> is \<open>None\<close> when \<^verbatim>\<open>options.filter\<close> is not a function. \<open>u_overwrite\<close> is
  \<open>None\<close> when the object has no property \<^verbatim>\<open>overwrite\<close>, and else \<open>Some\<close> of the truth value
  \<^verbatim>\<open>Boolean(options.overwrite)\<close>; the other flags are the truth values of their properties.
\<close>

record user_options =
  u_filter :: "(path \<Rightarrow> path \<Rightarrow> bool) option"
  u_overwrite :: "bool option"
  u_errorOnExist :: bool
  u_preserveTimestamps :: bool
  u_dereference :: bool

record copy_options =
  currentPath :: path
  targetPath :: path
  filter_fn :: "(path \<Rightarrow> path \<Rightarrow> bool) option"
  overwrite :: bool
  errorOnExist :: bool
  preserveTimestamps :: bool
  dereference :: bool

text \<open>
  The promisified primitives of \<^verbatim>\<open>./fs\<close> are parameters of the development: a record
  of operations on a filesystem state \<open>'s\<close>. A read answers from the state; a write
  answers with the new state, or with an error and the state as it was.
\<close>

record 's fs =
  fs_lstat :: "path \<Rightarrow> 's \<Rightarrow> fs_error + stats"
  fs_stat :: "path \<Rightarrow> 's \<Rightarrow> fs_error + stats"
  fs_readdir :: "path \<Rightarrow> 's \<Rightarrow> fs_error + string list"
  fs_readlink :: "path \<Rightarrow> 's \<Rightarrow> fs_error + string"
  fs_unlink :: "path \<Rightarrow> 's \<Rightarrow> fs_error + 's"
  fs_rmdir :: "path \<Rightarrow> 's \<Rightarrow> fs_error + 's"
  fs_chmod :: "path \<Rightarrow> nat \<Rightarrow> 's \<Rightarrow> fs_error + 's"
  fs_mkdir :: "path \<Rightarrow> nat \<Rightarrow> 's \<Rightarrow> fs_error + 's"
  fs_symlink :: "string \<Rightarrow> path \<Rightarrow> 's \<Rightarrow> fs_error + 's"
  fs_copyFile :: "path \<Rightarrow> path \<Rightarrow> copy_options \<Rightarrow> 's \<Rightarrow> fs_error + 's"

type_synonym ('a, 's) settled = "(thrown + 'a) \<times> 's"

definition run :: "fs_error + 's \<Rightarrow> 's \<Rightarrow> (unit, 's) settled" where
  \<comment> \<open>awaiting a write: its error is the rejection, the state is unchanged\<close>
  "run r s = (case r of Inl er \<Rightarrow> (Inl (FsError er), s) | Inr s' \<Rightarrow> (Inr (), s'))"

text \<open>
  \<^verbatim>\<open>Promise.all(xs.map(f))\<close>: every call is started, none is cancelled when another
  rejects. The model runs the calls one after the other in the order of the list, each to
  its end, and rejects with the first rejection in that order if there is one. The
  interleaving of the calls is not modelled: in the program the rejection that comes first
  in time wins, and the caller is told while the other calls are still running.
\<close>

fun promise_all :: "('a \<Rightarrow> 's \<Rightarrow> ('b, 's) promise) \<Rightarrow> 'a list \<Rightarrow> 's \<Rightarrow> ('b list, 's) promise" where
  "promise_all f [] s = Some (Inr [], s)"
| "promise_all f (x # xs) s =
     (case f x s of
        None \<Rightarrow> None
      | Some (r, s1) \<Rightarrow>
          (case promise_all f xs s1 of
             None \<Rightarrow> None
           | Some (rs, s2) \<Rightarrow>
               Some (case r of
                       Inl er \<Rightarrow> Inl er
                     | Inr v \<Rightarrow> (case rs of Inl er \<Rightarrow> Inl er | Inr vs \<Rightarrow> Inr (v # vs)),
                     s2)))"

section \<open>Copy\<close>

definition isWritable :: "'s fs \<Rightarrow> path \<Rightarrow> 's \<Rightarrow> thrown + bool" where
  "isWritable ops myPath s =
     (case fs_lstat ops myPath s of
        Inr _ \<Rightarrow> Inr False
      | Inl err \<Rightarrow> Inr (code err = ''ENOENT''))"

definition copyFile :: "'s fs \<Rightarrow> path \<Rightarrow> path \<Rightarrow> copy_options \<Rightarrow> 's \<Rightarrow> (unit, 's) settled" where
  "copyFile ops mySource target options s =
     (case isWritable ops target s of
        Inl er \<Rightarrow> (Inl er, s)
      | Inr w \<Rightarrow>
          if w then run (fs_copyFile ops mySource target options s) s
          else if overwrite options then
            (case fs_unlink ops target s of
               Inl er \<Rightarrow> (Inl (FsError er), s)
             | Inr s1 \<Rightarrow> run (fs_copyFile ops mySource target options s1) s1)
          else if errorOnExist options then (Inl (JsError (target @ '' already exists'')), s)
          else (Inr (), s))"

definition copyLink :: "'s fs \<Rightarrow> path \<Rightarrow> path \<Rightarrow> path \<Rightarrow> copy_options \<Rightarrow> 's \<Rightarrow> (unit, 's) settled" where
  "copyLink ops cwd mySource target options s =
     (case fs_readlink ops mySource s of
        Inl er \<Rightarrow> (Inl (FsError er), s)
      | Inr linkText \<Rightarrow>
          (let resolvedPath = (if dereference options then resolve cwd [cwd, linkText] else linkText)
           in case isWritable ops target s of
                Inl er \<Rightarrow> (Inl er, s)
              | Inr w \<Rightarrow>
                  if w then run (fs_symlink ops resolvedPath target s) s
                  else
                    (case fs_readlink ops target s of
                       Inl er \<Rightarrow> (Inl (FsError er), s)
                     | Inr destText \<Rightarrow>
                         (let targetDest = (if dereference options then resolve cwd [cwd, destText] else destText)
                          in if targetDest = resolvedPath then (Inr (), s)
                             else (case fs_unlink ops target s of
                                     Inl er \<Rightarrow> (Inl (FsError er), s)
                                   | Inr s1 \<Rightarrow> run (fs_symlink ops resolvedPath target s1) s1)))))"

definition replaceEsc :: "string \<Rightarrow> string" where
  "replaceEsc str = replace_all_char (CHR ''$'') ''$$'' [] str"

definition isSrcKid :: "path \<Rightarrow> path \<Rightarrow> path \<Rightarrow> bool" where
  \<comment> \<open>the \<^verbatim>\<open>catch\<close> answers \<^verbatim>\<open>false\<close> when the split has no second piece\<close>
  "isSrcKid cwd src0 dest0 =
     (let src = resolve cwd [src0]; dest = resolve cwd [dest0]
      in src \<noteq> dest \<and> indexOf dest src > - 1 \<and>
         (case split_js dest (dirname src @ sep) of
            _ # piece # _ \<Rightarrow>
              (case split_js piece sep of [] \<Rightarrow> False | first # _ \<Rightarrow> first = basename src)
          | _ \<Rightarrow> False))"

definition cyclic_message :: string where
  "cyclic_message = ''FS-NEXTRA: Copying a parent directory into a child will result in an infinite loop.''"

definition unknown_message :: string where
  "unknown_message = ''FS-NEXTRA: An Unknown error has occurred in startCopy.''"

definition copy_items ::
  "(path \<Rightarrow> copy_options \<Rightarrow> 's \<Rightarrow> (unit, 's) promise) \<Rightarrow> path \<Rightarrow> copy_options \<Rightarrow> string list \<Rightarrow> 's \<Rightarrow> (unit, 's) promise" where
  \<comment> \<open>\<^verbatim>\<open>Promise.all(items.map(item => this.startCopy(join(mySource, item), options)))\<close>\<close>
  "copy_items rec mySource options items s =
     (case promise_all (\<lambda>item. rec (join [mySource, item]) options) items s of
        None \<Rightarrow> None
      | Some (r, s') \<Rightarrow> Some (case r of Inl er \<Rightarrow> Inl er | Inr _ \<Rightarrow> Inr (), s'))"

definition copyDir ::
  "(path \<Rightarrow> copy_options \<Rightarrow> 's \<Rightarrow> (unit, 's) promise) \<Rightarrow> 's fs \<Rightarrow> path \<Rightarrow> path \<Rightarrow> path \<Rightarrow> stats \<Rightarrow> copy_options \<Rightarrow> 's \<Rightarrow> (unit, 's) promise" where
  \<comment> \<open>\<open>rec\<close> is \<^verbatim>\<open>this.startCopy\<close>\<close>
  "copyDir rec ops cwd mySource target st options s =
     (if isSrcKid cwd mySource target then Some (Inl (JsError cyclic_message), s)
      else
        (case isWritable ops target s of
           Inl er \<Rightarrow> Some (Inl er, s)
         | Inr w \<Rightarrow>
             (let made =
                (if w then
                   (case fs_mkdir ops target (st_mode st) s of
                      Inl er \<Rightarrow> (Inl (FsError er), s)
                    | Inr s1 \<Rightarrow> run (fs_chmod ops target (st_mode st) s1) s1)
                 else (Inr (), s))
              in case made of
                   (Inl er, s2) \<Rightarrow> Some (Inl er, s2)
                 | (Inr _, s2) \<Rightarrow>
                     (case fs_readdir ops mySource s2 of
                        Inl er \<Rightarrow> Some (Inl (FsError er), s2)
                      | Inr items \<Rightarrow> copy_items rec mySource options items s2))))"

definition copy_target :: "copy_options \<Rightarrow> path \<Rightarrow> path" where
  \<comment> \<open>\<^verbatim>\<open>mySource.replace(options.currentPath, this.replaceEsc(options.targetPath))\<close>\<close>
  "copy_target options mySource = replace_js mySource (currentPath options) (replaceEsc (targetPath options))"

definition startCopy ::
  "(path \<Rightarrow> copy_options \<Rightarrow> 's \<Rightarrow> (unit, 's) promise) \<Rightarrow> 's fs \<Rightarrow> path \<Rightarrow> path \<Rightarrow> copy_options \<Rightarrow> 's \<Rightarrow> (unit, 's) promise" where
  \<comment> \<open>\<open>rec\<close> is the call of \<^verbatim>\<open>this.startCopy\<close> on the children of a directory\<close>
  "startCopy rec ops cwd mySource options s =
     (if (case filter_fn options of None \<Rightarrow> False | Some f \<Rightarrow> \<not> f mySource (targetPath options))
      then Some (Inr (), s)
      else
        (case (if dereference options then fs_stat ops else fs_lstat ops) mySource s of
           Inl er \<Rightarrow> Some (Inl (FsError er), s)
         | Inr st \<Rightarrow>
             (let target = copy_target options mySource
              in if isDirectory st then copyDir rec ops cwd mySource target st options s
                 else if isFile st \<or> isCharacterDevice st \<or> isBlockDevice st \<or> isSymbolicLink st then
                   (let target' =
                      (case fs_stat ops target s of
                         Inl _ \<Rightarrow> target
                       | Inr tstats \<Rightarrow> if isDirectory tstats then join [target, basename mySource] else target)
                    in if isSymbolicLink st then Some (copyLink ops cwd mySource target' options s)
                       else Some (copyFile ops mySource target' options s))
                 else Some (Inl (JsError unknown_message), s))))"

definition leaf_target :: "'s fs \<Rightarrow> copy_options \<Rightarrow> path \<Rightarrow> 's \<Rightarrow> path" where
  \<comment> \<open>the target that \<^verbatim>\<open>startCopy\<close> hands to \<^verbatim>\<open>copyFile\<close> and \<^verbatim>\<open>copyLink\<close>: the computed
      one, or the source's name inside it when \<^verbatim>\<open>stat\<close> of the computed one, which follows
      links, reports a directory\<close>
  "leaf_target ops options mySource s =
     (let target = copy_target options mySource
      in case fs_stat ops target s of
           Inl _ \<Rightarrow> target
         | Inr tstats \<Rightarrow> if isDirectory tstats then join [target, basename mySource] else target)"

primrec startCopy_n :: "nat \<Rightarrow> 's fs \<Rightarrow> path \<Rightarrow> path \<Rightarrow> copy_options \<Rightarrow> 's \<Rightarrow> (unit, 's) promise" where
  \<comment> \<open>the recursion of \<^verbatim>\<open>startCopy\<close> through \<^verbatim>\<open>copyDir\<close>, to a nesting depth of \<open>n\<close> directories\<close>
  "startCopy_n 0 ops cwd = startCopy (\<lambda>_ _ _. None) ops cwd"
| "startCopy_n (Suc n) ops cwd = startCopy (startCopy_n n ops cwd) ops cwd"

definition ncp :: "nat \<Rightarrow> 's fs \<Rightarrow> path \<Rightarrow> path \<Rightarrow> path \<Rightarrow> user_options \<Rightarrow> 's \<Rightarrow> (unit, 's) promise" where
  "ncp n ops cwd source dest uopts s =
     (let options = \<lparr> currentPath = resolve cwd [cwd, source],
                      targetPath = resolve cwd [cwd, dest],
                      filter_fn = Some (case u_filter uopts of Some f \<Rightarrow> f | None \<Rightarrow> (\<lambda>_ _. True)),
                      overwrite = (case u_overwrite uopts of Some b \<Rightarrow> b | None \<Rightarrow> True),
                      errorOnExist = u_errorOnExist uopts,
                      preserveTimestamps = u_preserveTimestamps uopts,
                      dereference = u_dereference uopts \<rparr>
      in startCopy_n n ops cwd (currentPath options) options s)"

section \<open>Remove\<close>

text \<open>
  In the functions of the remove engine \<open>rm\<close> stands for \<^verbatim>\<open>remove\<close> of
  \<^verbatim>\<open>./nextra/remove\<close>, which \<^verbatim>\<open>rmkids\<close> calls on every child. The \<^verbatim>\<open>options\<close>
  object is only handed on to it and is left out.
\<close>

definition rmkids :: "(path \<Rightarrow> 's \<Rightarrow> (unit, 's) promise) \<Rightarrow> 's fs \<Rightarrow> path \<Rightarrow> 's \<Rightarrow> (unit, 's) promise" where
  "rmkids rm ops myPath s =
     (case fs_readdir ops myPath s of
        Inl er \<Rightarrow> Some (Inl (FsError er), s)
      | Inr files \<Rightarrow>
          if files = [] then Some (run (fs_rmdir ops myPath s) s)
          else
            (case promise_all (\<lambda>file. rm (join [myPath, file])) files s of
               None \<Rightarrow> None
             | Some (Inl er, s1) \<Rightarrow> Some (Inl er, s1)
             | Some (Inr _, s1) \<Rightarrow> Some (run (fs_rmdir ops myPath s1) s1)))"

definition removeDir :: "(path \<Rightarrow> 's \<Rightarrow> (unit, 's) promise) \<Rightarrow> 's fs \<Rightarrow> path \<Rightarrow> thrown \<Rightarrow> 's \<Rightarrow> (unit, 's) promise" where
  "removeDir rm ops myPath originalEr s =
     (case fs_rmdir ops myPath s of
        Inr s1 \<Rightarrow> Some (Inr (), s1)
      | Inl er \<Rightarrow>
          if code er = ''ENOTEMPTY'' \<or> code er = ''EEXIST'' \<or> code er = ''EPERM'' then rmkids rm ops myPath s
          else if code er = ''ENOTDIR'' then Some (Inl originalEr, s)
          else Some (Inl (FsError er), s))"

definition fixWinEPERM :: "(path \<Rightarrow> 's \<Rightarrow> (unit, 's) promise) \<Rightarrow> 's fs \<Rightarrow> path \<Rightarrow> fs_error \<Rightarrow> 's \<Rightarrow> (unit, 's) promise" where
  "fixWinEPERM rm ops myPath err s =
     (case fs_chmod ops myPath 666 s of
        Inl er \<Rightarrow> Some (Inl (if code er = ''ENOENT'' then Null else FsError err), s)
      | Inr s1 \<Rightarrow>
          (case fs_stat ops myPath s1 of
             Inl er \<Rightarrow> Some (Inl (if code er = ''ENOENT'' then Null else FsError err), s1)
           | Inr st \<Rightarrow>
               if isDirectory st then removeDir rm ops myPath (FsError err) s1
               else Some (run (fs_unlink ops myPath s1) s1)))"

definition rimraf :: "(path \<Rightarrow> 's \<Rightarrow> (unit, 's) promise) \<Rightarrow> 's fs \<Rightarrow> bool \<Rightarrow> path \<Rightarrow> 's \<Rightarrow> (unit, 's) promise" where
  \<comment> \<open>\<^verbatim>\<open>stats\<close> is \<open>None\<close> when the handler of \<^verbatim>\<open>lstat\<close> returned what \<^verbatim>\<open>fixWinEPERM\<close> resolved to\<close>
  "rimraf rm ops isWindows myPath s =
     (case (case fs_lstat ops myPath s of
              Inr st \<Rightarrow> Some (Inr (Some st), s)
            | Inl er \<Rightarrow>
                if code er = ''EPERM'' \<and> isWindows then
                  (case fixWinEPERM rm ops myPath er s of
                     None \<Rightarrow> None
                   | Some (Inl e, s1) \<Rightarrow> Some (Inl e, s1)
                   | Some (Inr _, s1) \<Rightarrow> Some (Inr None, s1))
                else Some (Inl (FsError er), s)) of
        None \<Rightarrow> None
      | Some (Inl e, s1) \<Rightarrow> Some (Inl e, s1)
      | Some (Inr stats, s1) \<Rightarrow>
          if (case stats of None \<Rightarrow> False | Some st \<Rightarrow> isDirectory st)
          then removeDir rm ops myPath Null s1
          else
            (case fs_unlink ops myPath s1 of
               Inr s2 \<Rightarrow> Some (Inr (), s2)
             | Inl er \<Rightarrow>
                 if code er = ''EPERM'' then
                   (if isWindows then fixWinEPERM rm ops myPath er s1
                    else removeDir rm ops myPath (FsError er) s1)
                 else if code er = ''EISDIR'' then removeDir rm ops myPath (FsError er) s1
                 else Some (Inl (FsError er), s1)))"

text \<open>
  Modelled from the spec: \<^verbatim>\<open>remove\<close> (\<^verbatim>\<open>./nextra/remove\<close>), which is not part of
  \<^verbatim>\<open>util.js\<close>. The specification gives it the behaviour of \<^verbatim>\<open>rimraf\<close> and adds that
  an absent path is success: a failure of the class not-found is not an error of the
  operation; every other failure surfaces as it is. The timed retries for a busy target are
  not modelled.
\<close>

definition remove :: "(path \<Rightarrow> 's \<Rightarrow> (unit, 's) promise) \<Rightarrow> path \<Rightarrow> 's \<Rightarrow> (unit, 's) promise" where
  "remove engine myPath s =
     (case engine myPath s of
        None \<Rightarrow> None
      | Some (Inl (FsError er), s1) \<Rightarrow>
          if code er = ''ENOENT'' then Some (Inr (), s1) else Some (Inl (FsError er), s1)
      | Some (r, s1) \<Rightarrow> Some (r, s1))"

primrec remove_n :: "nat \<Rightarrow> 's fs \<Rightarrow> bool \<Rightarrow> path \<Rightarrow> 's \<Rightarrow> (unit, 's) promise" where
  \<comment> \<open>the recursion of \<^verbatim>\<open>remove\<close> through \<^verbatim>\<open>rimraf\<close> and \<^verbatim>\<open>rmkids\<close>, to a nesting depth of \<open>n\<close>\<close>
  "remove_n 0 ops isWindows = remove (rimraf (\<lambda>_ _. None) ops isWindows)"
| "remove_n (Suc n) ops isWindows = remove (rimraf (remove_n n ops isWindows) ops isWindows)"

section \<open>Scan\<close>

record scan_options =
  scan_filter :: "(stats \<Rightarrow> path \<Rightarrow> bool) option"
  depthLimit :: "int option"

type_synonym results = "(path \<times> stats) list"

text \<open>
  The callback of \<^verbatim>\<open>map\<close> in \<^verbatim>\<open>scanDeep\<close> runs once for every name, in order, and each
  run evaluates \<^verbatim>\<open>++level\<close> on the variable \<^verbatim>\<open>level\<close> of the enclosing call: the
  variable is threaded through the list. \<^verbatim>\<open>results\<close> is the \<^verbatim>\<open>Map\<close> shared by all calls,
  an association list in insertion order. The model finishes the scan of one child before
  it starts the next, so it fixes the keys of the result and the level of every call, not
  the order in which calls of different branches insert; the level is an integer without
  bound, where the program counts in double precision.
\<close>

fun scan_parts ::
  "(path \<Rightarrow> results \<Rightarrow> int \<Rightarrow> (thrown + results) option) \<Rightarrow> path \<Rightarrow> string list \<Rightarrow> results \<Rightarrow> int \<Rightarrow> (thrown + results) option" where
  "scan_parts rec dir [] results level = Some (Inr results)"
| "scan_parts rec dir (part # parts) results level =
     (case rec (join [dir, part]) results (level + 1) of
        None \<Rightarrow> None
      | Some (Inl er) \<Rightarrow> Some (Inl er)
      | Some (Inr results1) \<Rightarrow> scan_parts rec dir parts results1 (level + 1))"

definition scanDeep ::
  "(path \<Rightarrow> results \<Rightarrow> int \<Rightarrow> (thrown + results) option) \<Rightarrow> 's fs \<Rightarrow> scan_options \<Rightarrow> 's \<Rightarrow> path \<Rightarrow> results \<Rightarrow> int \<Rightarrow> (thrown + results) option" where
  \<comment> \<open>\<open>rec\<close> is \<^verbatim>\<open>this.scanDeep\<close>; the scan only reads the filesystem \<open>s\<close>\<close>
  "scanDeep rec ops options s dir results level =
     (case fs_lstat ops dir s of
        Inl er \<Rightarrow> Some (Inl (FsError er))
      | Inr st \<Rightarrow>
          (let results1 =
             (if (case scan_filter options of None \<Rightarrow> True | Some f \<Rightarrow> f st dir)
              then AList.update dir st results else results)
           in if isDirectory st \<and> (case depthLimit options of None \<Rightarrow> True | Some d \<Rightarrow> level < d)
              then (case fs_readdir ops dir s of
                      Inl er \<Rightarrow> Some (Inl (FsError er))
                    | Inr parts \<Rightarrow> scan_parts rec dir parts results1 level)
              else Some (Inr results1)))"

primrec scanDeep_n :: "nat \<Rightarrow> 's fs \<Rightarrow> scan_options \<Rightarrow> 's \<Rightarrow> path \<Rightarrow> results \<Rightarrow> int \<Rightarrow> (thrown + results) option" where
  "scanDeep_n 0 ops options s = scanDeep (\<lambda>_ _ _. None) ops options s"
| "scanDeep_n (Suc n) ops options s = scanDeep (scanDeep_n n ops options s) ops options s"

section \<open>An in-memory filesystem\<close>

text \<open>
  Modelled from the spec: the filesystem access layer (\<^verbatim>\<open>./fs\<close>), of which the
  specification names the primitives and says that the engine depends only on their
  success and error contracts. This instance is a table from absolute, normalised paths to
  nodes, with the error codes of a POSIX system; it serves to run the engine on concrete
  trees. \<^verbatim>\<open>readdir\<close> lists the names in the order of the table and does not follow a
  symbolic link, and no operation follows a symbolic link in a directory part of its path.
\<close>

datatype node = NFile string nat | NDir nat | NLink string

type_synonym memfs = "(path \<times> node) list"

definition mem_error :: "string \<Rightarrow> string \<Rightarrow> path \<Rightarrow> fs_error" where
  "mem_error c syscall p = \<lparr> code = c, message = c @ '': '' @ syscall @ '' '' @ p \<rparr>"

definition mem_lookup :: "string \<Rightarrow> path \<Rightarrow> memfs \<Rightarrow> fs_error + node" where
  "mem_lookup syscall p s =
     (case map_of s (dirname p) of
        Some (NFile _ _) \<Rightarrow> Inl (mem_error ''ENOTDIR'' syscall p)
      | _ \<Rightarrow> (case map_of s p of
                None \<Rightarrow> Inl (mem_error ''ENOENT'' syscall p)
              | Some nd \<Rightarrow> Inr nd))"

fun node_stats :: "node \<Rightarrow> stats" where
  "node_stats (NFile _ m) = \<lparr> st_kind = File, st_mode = m \<rparr>"
| "node_stats (NDir m) = \<lparr> st_kind = Directory, st_mode = m \<rparr>"
| "node_stats (NLink _) = \<lparr> st_kind = SymbolicLink, st_mode = 511 \<rparr>"

definition mem_lstat :: "path \<Rightarrow> memfs \<Rightarrow> fs_error + stats" where
  "mem_lstat p s = (case mem_lookup ''lstat'' p s of Inl er \<Rightarrow> Inl er | Inr nd \<Rightarrow> Inr (node_stats nd))"

definition link_dest :: "path \<Rightarrow> string \<Rightarrow> path" where
  \<comment> \<open>where the link at \<open>p\<close> with text \<open>t\<close> points: a relative text counts from the link's directory\<close>
  "link_dest p t = (if isAbsolute t then normalize_path t else join [dirname p, t])"

primrec mem_follow :: "nat \<Rightarrow> string \<Rightarrow> path \<Rightarrow> memfs \<Rightarrow> fs_error + (path \<times> node)" where
  "mem_follow 0 syscall p s = Inl (mem_error ''ELOOP'' syscall p)"
| "mem_follow (Suc n) syscall p s =
     (case mem_lookup syscall p s of
        Inl er \<Rightarrow> Inl er
      | Inr (NLink t) \<Rightarrow> mem_follow n syscall (link_dest p t) s
      | Inr nd \<Rightarrow> Inr (p, nd))"

definition mem_stat :: "path \<Rightarrow> memfs \<Rightarrow> fs_error + stats" where
  "mem_stat p s =
     (case mem_follow (Suc (Suc (Suc (Suc 0)))) ''stat'' p s of
        Inl er \<Rightarrow> Inl er
      | Inr (_, nd) \<Rightarrow> Inr (node_stats nd))"

definition mem_children :: "path \<Rightarrow> memfs \<Rightarrow> string list" where
  "mem_children p s = map (\<lambda>(q, _). basename q) (filter (\<lambda>(q, _). q \<noteq> p \<and> dirname q = p) s)"

definition mem_readdir :: "path \<Rightarrow> memfs \<Rightarrow> fs_error + string list" where
  "mem_readdir p s =
     (case mem_lookup ''scandir'' p s of
        Inl er \<Rightarrow> Inl er
      | Inr (NDir _) \<Rightarrow> Inr (mem_children p s)
      | Inr _ \<Rightarrow> Inl (mem_error ''ENOTDIR'' ''scandir'' p))"

definition mem_readlink :: "path \<Rightarrow> memfs \<Rightarrow> fs_error + string" where
  "mem_readlink p s =
     (case mem_lookup ''readlink'' p s of
        Inl er \<Rightarrow> Inl er
      | Inr (NLink t) \<Rightarrow> Inr t
      | Inr _ \<Rightarrow> Inl (mem_error ''EINVAL'' ''readlink'' p))"

definition mem_unlink :: "path \<Rightarrow> memfs \<Rightarrow> fs_error + memfs" where
  "mem_unlink p s =
     (case mem_lookup ''unlink'' p s of
        Inl er \<Rightarrow> Inl er
      | Inr (NDir _) \<Rightarrow> Inl (mem_error ''EISDIR'' ''unlink'' p)
      | Inr _ \<Rightarrow> Inr (AList.delete p s))"

definition mem_rmdir :: "path \<Rightarrow> memfs \<Rightarrow> fs_error + memfs" where
  "mem_rmdir p s =
     (case mem_lookup ''rmdir'' p s of
        Inl er \<Rightarrow> Inl er
      | Inr (NDir _) \<Rightarrow>
          if mem_children p s = [] then Inr (AList.delete p s)
          else Inl (mem_error ''ENOTEMPTY'' ''rmdir'' p)
      | Inr _ \<Rightarrow> Inl (mem_error ''ENOTDIR'' ''rmdir'' p))"

definition mem_chmod :: "path \<Rightarrow> nat \<Rightarrow> memfs \<Rightarrow> fs_error + memfs" where
  "mem_chmod p m s =
     (case mem_lookup ''chmod'' p s of
        Inl er \<Rightarrow> Inl er
      | Inr (NFile c _) \<Rightarrow> Inr (AList.update p (NFile c m) s)
      | Inr (NDir _) \<Rightarrow> Inr (AList.update p (NDir m) s)
      | Inr (NLink _) \<Rightarrow> Inr s)"

definition mem_create :: "string \<Rightarrow> path \<Rightarrow> node \<Rightarrow> memfs \<Rightarrow> fs_error + memfs" where
  \<comment> \<open>a new entry needs a free name in an existing directory\<close>
  "mem_create syscall p nd s =
     (case map_of s p of
        Some _ \<Rightarrow> Inl (mem_error ''EEXIST'' syscall p)
      | None \<Rightarrow>
          (case map_of s (dirname p) of
             None \<Rightarrow> Inl (mem_error ''ENOENT'' syscall p)
           | Some (NDir _) \<Rightarrow> Inr (AList.update p nd s)
           | Some _ \<Rightarrow> Inl (mem_error ''ENOTDIR'' syscall p)))"

definition mem_mkdir :: "path \<Rightarrow> nat \<Rightarrow> memfs \<Rightarrow> fs_error + memfs" where
  "mem_mkdir p m s = mem_create ''mkdir'' p (NDir m) s"

definition mem_symlink :: "string \<Rightarrow> path \<Rightarrow> memfs \<Rightarrow> fs_error + memfs" where
  "mem_symlink t p s = mem_create ''symlink'' p (NLink t) s"

definition mem_copyFile :: "path \<Rightarrow> path \<Rightarrow> copy_options \<Rightarrow> memfs \<Rightarrow> fs_error + memfs" where
  "mem_copyFile src dst options s =
     (case mem_follow (Suc (Suc (Suc (Suc 0)))) ''copyfile'' src s of
        Inl er \<Rightarrow> Inl er
      | Inr (_, NFile c m) \<Rightarrow>
          (case map_of s dst of
             Some (NDir _) \<Rightarrow> Inl (mem_error ''EISDIR'' ''copyfile'' dst)
           | Some _ \<Rightarrow> Inr (AList.update dst (NFile c m) s)
           | None \<Rightarrow> mem_create ''copyfile'' dst (NFile c m) s)
      | Inr _ \<Rightarrow> Inl (mem_error ''EISDIR'' ''copyfile'' src))"

definition mem_fs :: "memfs fs" where
  "mem_fs =
     \<lparr> fs_lstat = mem_lstat, fs_stat = mem_stat, fs_readdir = mem_readdir,
       fs_readlink = mem_readlink, fs_unlink = mem_unlink, fs_rmdir = mem_rmdir,
       fs_chmod = mem_chmod, fs_mkdir = mem_mkdir, fs_symlink = mem_symlink,
       fs_copyFile = mem_copyFile \<rparr>"

definition no_options :: user_options where
  \<comment> \<open>\<^verbatim>\<open>{}\<close>\<close>
  "no_options = \<lparr> u_filter = None, u_overwrite = None, u_errorOnExist = False,
                  u_preserveTimestamps = False, u_dereference = False \<rparr>"

section \<open>Concrete trees and options\<close>

definition file_tree :: memfs where
  \<comment> \<open>a source file \<^verbatim>\<open>/s\<close> and an existing destination file \<^verbatim>\<open>/d\<close>\<close>
  "file_tree = [(''/'', NDir 493), (''/s'', NFile ''new'' 420), (''/d'', NFile ''old'' 384)]"

definition copy_flags :: "bool \<Rightarrow> bool \<Rightarrow> copy_options" where
  "copy_flags ow ee =
     \<lparr> currentPath = ''/s'', targetPath = ''/d'', filter_fn = None, overwrite = ow,
       errorOnExist = ee, preserveTimestamps = False, dereference = False \<rparr>"

definition scan_tree :: memfs where
  \<comment> \<open>\<^verbatim>\<open>/r\<close> holds the file \<^verbatim>\<open>a\<close> and the directory \<^verbatim>\<open>b\<close>, which holds the file \<^verbatim>\<open>c\<close>\<close>
  "scan_tree = [(''/'', NDir 493), (''/r'', NDir 493), (''/r/a'', NFile ''A'' 420),
                (''/r/b'', NDir 493), (''/r/b/c'', NFile ''C'' 420)]"

definition dir_stats :: stats where
  "dir_stats = \<lparr> st_kind = Directory, st_mode = 493 \<rparr>"

definition file_stats :: stats where
  "file_stats = \<lparr> st_kind = File, st_mode = 420 \<rparr>"

definition top_tree :: memfs where
  \<comment> \<open>an empty directory \<^verbatim>\<open>/a\<close> directly under the root\<close>
  "top_tree = [(''/'', NDir 493), (''/a'', NDir 493)]"

definition nested_tree :: memfs where
  "nested_tree = [(''/'', NDir 493), (''/a'', NDir 493), (''/a/b'', NDir 493), (''/x'', NDir 493)]"

definition locked_fs :: "memfs fs" where
  \<comment> \<open>the in-memory filesystem with every \<^verbatim>\<open>lstat\<close> refused, as for a locked entry on Windows\<close>
  "locked_fs = mem_fs \<lparr> fs_lstat := \<lambda>p s. Inl (mem_error ''EPERM'' ''lstat'' p) \<rparr>"

definition link_tree :: memfs where
  \<comment> \<open>the link \<^verbatim>\<open>/a/l\<close> points to its neighbour \<^verbatim>\<open>x\<close>\<close>
  "link_tree = [(''/'', NDir 493), (''/a'', NDir 493), (''/a/x'', NFile ''X'' 420),
                (''/a/l'', NLink ''x''), (''/b'', NDir 493), (''/b/c'', NDir 493)]"




definition windows_fs :: "memfs fs" where
  \<comment> \<open>the in-memory filesystem with the \<^verbatim>\<open>unlink\<close> of a file refused (\<^verbatim>\<open>EPERM\<close>) unless its
      owner may write it, as Windows does for a read-only file\<close>
  "windows_fs =
     mem_fs \<lparr> fs_unlink := \<lambda>p s.
       (case map_of s p of
          Some (NFile c m) \<Rightarrow>
            if (m div 128) mod 2 = 1 then mem_unlink p s
            else Inl (mem_error ''EPERM'' ''unlink'' p)
        | _ \<Rightarrow> mem_unlink p s) \<rparr>"

definition readonly_tree :: memfs where
  \<comment> \<open>the file \<^verbatim>\<open>/ro\<close> has the mode \<^verbatim>\<open>0o444\<close>\<close>
  "readonly_tree = [(''/'', NDir 493), (''/ro'', NFile ''data'' 292)]"

definition immutable_fs :: "memfs fs" where
  \<comment> \<open>the in-memory filesystem with every \<^verbatim>\<open>unlink\<close> refused (\<^verbatim>\<open>EPERM\<close>), as for files
      that may not be changed\<close>
  "immutable_fs = mem_fs \<lparr> fs_unlink := \<lambda>p s. Inl (mem_error ''EPERM'' ''unlink'' p) \<rparr>"

definition readonly_fs :: "memfs fs" where
  \<comment> \<open>the in-memory filesystem with every delete refused\<close>
  "readonly_fs = mem_fs \<lparr> fs_unlink := \<lambda>p s. Inl (mem_error ''EACCES'' ''unlink'' p),
                           fs_rmdir := \<lambda>p s. Inl (mem_error ''EACCES'' ''rmdir'' p) \<rparr>"


definition stale_fs :: "memfs fs" where
  \<comment> \<open>the in-memory filesystem with \<^verbatim>\<open>lstat\<close> answering as for a regular file, as when the
      entry was replaced after \<^verbatim>\<open>lstat\<close> had looked\<close>
  "stale_fs = mem_fs \<lparr> fs_lstat := \<lambda>p s. Inr file_stats \<rparr>"

definition blind_fs :: "memfs fs" where
  \<comment> \<open>the in-memory filesystem with every listing empty, as when the entries of a directory
      appear after it was listed\<close>
  "blind_fs = mem_fs \<lparr> fs_readdir := \<lambda>p s. Inr [] \<rparr>"

definition dangling_tree :: memfs where
  \<comment> \<open>the link \<^verbatim>\<open>/l\<close> points below the regular file \<^verbatim>\<open>/d\<close>\<close>
  "dangling_tree = file_tree @ [(''/l'', NLink ''d/x'')]"


definition link_options :: "path \<Rightarrow> copy_options" where
  \<comment> \<open>the options of a copy of the link \<^verbatim>\<open>/a/l\<close> to \<open>dest\<close>\<close>
  "link_options dest =
     \<lparr> currentPath = ''/a/l'', targetPath = dest, filter_fn = Some (\<lambda>_ _. True), overwrite = True,
       errorOnExist = False, preserveTimestamps = False, dereference = False \<rparr>"

section \<open>Absence\<close>

text \<open>
  A path is absent when \<^verbatim>\<open>lstat\<close> fails on it with \<^verbatim>\<open>ENOENT\<close>. A filesystem layer is
  consistent about absence when a path it has deleted is absent afterwards, and a path on
  which a delete or a listing fails with \<^verbatim>\<open>ENOENT\<close> is absent.
\<close>

definition absent :: "'s fs \<Rightarrow> path \<Rightarrow> 's \<Rightarrow> bool" where
  "absent ops p s = (case fs_lstat ops p s of Inl er \<Rightarrow> code er = ''ENOENT'' | Inr _ \<Rightarrow> False)"

definition consistent_fs :: "'s fs \<Rightarrow> bool" where
  "consistent_fs ops =
     (\<forall>p s. (case fs_unlink ops p s of
                Inr s' \<Rightarrow> absent ops p s'
              | Inl er \<Rightarrow> code er = ''ENOENT'' \<longrightarrow> absent ops p s)
           \<and> (case fs_rmdir ops p s of
                Inr s' \<Rightarrow> absent ops p s'
              | Inl er \<Rightarrow> code er = ''ENOENT'' \<longrightarrow> absent ops p s)
           \<and> (case fs_readdir ops p s of
                Inr _ \<Rightarrow> True
              | Inl er \<Rightarrow> code er = ''ENOENT'' \<longrightarrow> absent ops p s))"

text \<open>
  What a settled removal of \<open>p\<close> leaves behind: \<open>p\<close> is absent after a success and
  after a rejection of the class not-found. \<open>never_not_found\<close> says of the removal of
  the children that it hides that class.
\<close>

definition leaves_absent :: "'s fs \<Rightarrow> path \<Rightarrow> (unit, 's) settled \<Rightarrow> bool" where
  "leaves_absent ops p out =
     (case out of
        (Inr _, s') \<Rightarrow> absent ops p s'
      | (Inl (FsError er), s') \<Rightarrow> code er = ''ENOENT'' \<longrightarrow> absent ops p s'
      | (Inl _, _) \<Rightarrow> True)"

definition never_not_found :: "(path \<Rightarrow> 's \<Rightarrow> (unit, 's) promise) \<Rightarrow> bool" where
  "never_not_found rm = (\<forall>q s er s'. rm q s = Some (Inl (FsError er), s') \<longrightarrow> code er \<noteq> ''ENOENT'')"


section \<open>The file copy policy\<close>

text \<open>
  Claim C4. \<^verbatim>\<open>copyFile(source, target, options)\<close>: when the target is absent (\<^verbatim>\<open>lstat\<close>
  fails with \<^verbatim>\<open>ENOENT\<close>) the bytes are copied directly; when the target exists and
  \<^verbatim>\<open>overwrite\<close> is set, the target is deleted and then the copy is made; when it exists,
  \<^verbatim>\<open>overwrite\<close> is off and \<^verbatim>\<open>errorOnExist\<close> is set, the call fails with the error
  \<^verbatim>\<open><target> already exists\<close>; when it exists and both are off, the call succeeds and
  the filesystem is unchanged.
\<close>

theorem copyFile_policy:
  "(\<forall>er. fs_lstat ops target s = Inl er \<and> code er = ''ENOENT'' \<longrightarrow>
       copyFile ops mySource target options s = run (fs_copyFile ops mySource target options s) s)
   \<and> (\<forall>st. fs_lstat ops target s = Inr st \<and> overwrite options \<longrightarrow>
       copyFile ops mySource target options s =
         (case fs_unlink ops target s of
            Inl er \<Rightarrow> (Inl (FsError er), s)
          | Inr s1 \<Rightarrow> run (fs_copyFile ops mySource target options s1) s1))
   \<and> (\<forall>st. fs_lstat ops target s = Inr st \<and> \<not> overwrite options \<and> errorOnExist options \<longrightarrow>
       copyFile ops mySource target options s = (Inl (JsError (target @ '' already exists'')), s))
   \<and> (\<forall>st. fs_lstat ops target s = Inr st \<and> \<not> overwrite options \<and> \<not> errorOnExist options \<longrightarrow>
       copyFile ops mySource target options s = (Inr (), s))"
  by (simp add: isWritable_def copyFile_def)

theorem copyFile_policy_witness:
  "copyFile mem_fs ''/s'' ''/e'' (copy_flags True False) file_tree
     = (Inr (), file_tree @ [(''/e'', NFile ''new'' 420)])
   \<and> copyFile mem_fs ''/s'' ''/d'' (copy_flags True False) file_tree
     = (Inr (), [(''/'', NDir 493), (''/s'', NFile ''new'' 420), (''/d'', NFile ''new'' 420)])
   \<and> copyFile mem_fs ''/s'' ''/d'' (copy_flags False True) file_tree
     = (Inl (JsError ''/d already exists''), file_tree)
   \<and> copyFile mem_fs ''/s'' ''/d'' (copy_flags False False) file_tree = (Inr (), file_tree)"
proof -
  have absent: "fs_lstat mem_fs ''/e'' file_tree = Inl (mem_error ''ENOENT'' ''lstat'' ''/e'')"
    by code_simp
  have c: "code (mem_error ''ENOENT'' ''lstat'' ''/e'') = ''ENOENT''"
    by (simp add: mem_error_def)
  have present: "fs_lstat mem_fs ''/d'' file_tree = Inr \<lparr>st_kind = File, st_mode = 384\<rparr>"
    by code_simp
  have cp: "run (fs_copyFile mem_fs ''/s'' ''/e'' (copy_flags True False) file_tree) file_tree
     = (Inr (), file_tree @ [(''/e'', NFile ''new'' 420)])"
    by code_simp
  have ul: "(case fs_unlink mem_fs ''/d'' file_tree of
            Inl er \<Rightarrow> (Inl (FsError er), file_tree)
          | Inr s1 \<Rightarrow> run (fs_copyFile mem_fs ''/s'' ''/d'' (copy_flags True False) s1) s1)
     = (Inr (), [(''/'', NDir 493), (''/s'', NFile ''new'' 420), (''/d'', NFile ''new'' 420)])"
    by code_simp
  have flags: "overwrite (copy_flags True False)" "\<not> overwrite (copy_flags False True)"
    "\<not> overwrite (copy_flags False False)" "errorOnExist (copy_flags False True)"
    "\<not> errorOnExist (copy_flags False False)"
    by (simp_all add: copy_flags_def)
  note p1 = copyFile_policy [of mem_fs "''/e''" file_tree "''/s''" "copy_flags True False"]
  note p2 = copyFile_policy [of mem_fs "''/d''" file_tree "''/s''" "copy_flags True False"]
  note p3 = copyFile_policy [of mem_fs "''/d''" file_tree "''/s''" "copy_flags False True"]
  note p4 = copyFile_policy [of mem_fs "''/d''" file_tree "''/s''" "copy_flags False False"]
  have direct: "copyFile mem_fs ''/s'' ''/e'' (copy_flags True False) file_tree
     = (Inr (), file_tree @ [(''/e'', NFile ''new'' 420)])"
    using p1 absent c cp by simp
  have replaced: "copyFile mem_fs ''/s'' ''/d'' (copy_flags True False) file_tree
     = (Inr (), [(''/'', NDir 493), (''/s'', NFile ''new'' 420), (''/d'', NFile ''new'' 420)])"
    using p2 present flags ul by simp
  have refused: "copyFile mem_fs ''/s'' ''/d'' (copy_flags False True) file_tree
     = (Inl (JsError ''/d already exists''), file_tree)"
    using p3 present flags by simp
  have skipped: "copyFile mem_fs ''/s'' ''/d'' (copy_flags False False) file_tree = (Inr (), file_tree)"
    using p4 present flags by simp
  from direct replaced refused skipped show ?thesis by simp
qed

text \<open>
  Claim C10. \<^verbatim>\<open>isWritable(p)\<close> never rejects; it resolves to \<^verbatim>\<open>true\<close> exactly when
  \<^verbatim>\<open>lstat(p)\<close> fails with the code \<^verbatim>\<open>ENOENT\<close>, and to \<^verbatim>\<open>false\<close> when \<^verbatim>\<open>lstat\<close>
  succeeds or fails with any other code. So \<^verbatim>\<open>copyFile\<close> takes a target whose
  \<^verbatim>\<open>lstat\<close> fails for another reason than absence for an existing target: it follows
  the branches for an existing target, and the error of \<^verbatim>\<open>lstat\<close> is not what it answers.
\<close>

theorem isWritable_only_ENOENT:
  "isWritable ops myPath s = Inr (\<exists>er. fs_lstat ops myPath s = Inl er \<and> code er = ''ENOENT'')
   \<and> (\<forall>er. fs_lstat ops target s = Inl er \<and> code er \<noteq> ''ENOENT'' \<longrightarrow>
          copyFile ops mySource target options s =
            (if overwrite options then
               (case fs_unlink ops target s of
                  Inl er' \<Rightarrow> (Inl (FsError er'), s)
                | Inr s1 \<Rightarrow> run (fs_copyFile ops mySource target options s1) s1)
             else if errorOnExist options then (Inl (JsError (target @ '' already exists'')), s)
             else (Inr (), s)))"
  by (auto simp: isWritable_def copyFile_def split: sum.splits)

theorem isWritable_only_ENOENT_witness:
  "fs_lstat mem_fs ''/d/x'' file_tree = Inl (mem_error ''ENOTDIR'' ''lstat'' ''/d/x'')
   \<and> isWritable mem_fs ''/d/x'' file_tree = Inr False
   \<and> isWritable mem_fs ''/d'' file_tree = Inr False
   \<and> isWritable mem_fs ''/e'' file_tree = Inr True
   \<and> copyFile mem_fs ''/s'' ''/d/x'' (copy_flags False True) file_tree
        = (Inl (JsError ''/d/x already exists''), file_tree)
   \<and> copyFile mem_fs ''/s'' ''/d/x'' (copy_flags False False) file_tree = (Inr (), file_tree)"
proof -
  have l: "fs_lstat mem_fs ''/d/x'' file_tree = Inl (mem_error ''ENOTDIR'' ''lstat'' ''/d/x'')"
    by code_simp
  have c: "code (mem_error ''ENOTDIR'' ''lstat'' ''/d/x'') \<noteq> ''ENOENT''"
    by (simp add: mem_error_def)
  have w1: "isWritable mem_fs ''/d/x'' file_tree = Inr False" by code_simp
  have w2: "isWritable mem_fs ''/d'' file_tree = Inr False" by code_simp
  have w3: "isWritable mem_fs ''/e'' file_tree = Inr True" by code_simp
  from isWritable_only_ENOENT [of mem_fs "''/d/x''" file_tree "''/d/x''" "''/s''" "copy_flags False True"] l c
  have e1: "copyFile mem_fs ''/s'' ''/d/x'' (copy_flags False True) file_tree
        = (Inl (JsError ''/d/x already exists''), file_tree)"
    by (simp add: copy_flags_def)
  from isWritable_only_ENOENT [of mem_fs "''/d/x''" file_tree "''/d/x''" "''/s''" "copy_flags False False"] l c
  have e2: "copyFile mem_fs ''/s'' ''/d/x'' (copy_flags False False) file_tree = (Inr (), file_tree)"
    by (simp add: copy_flags_def)
  from l w1 w2 w3 e1 e2 show ?thesis by simp
qed

section \<open>The destination of an entry\<close>

lemma replace_all_char_dollar: "replace_all_char (CHR ''$'') ''$$'' front str = str"
  by (induction str arbitrary: front) simp_all

lemma replaceEsc_unchanged: "replaceEsc str = str"
  by (simp add: replaceEsc_def replace_all_char_dollar)

text \<open>
  Claim C6 says that the destination root is put into the destination path of an entry as
  a literal string, its pattern-special characters escaped. The code does not do so:
  \<^verbatim>\<open>replaceEsc\<close> replaces every dollar sign with the replacement text \<^verbatim>\<open>$$\<close>, which
  itself stands for one dollar sign, so it returns its argument as it is, and
  \<^verbatim>\<open>replace\<close> reads the destination root as a pattern. With the source root \<^verbatim>\<open>/r\<close>
  and the destination root \<^verbatim>\<open>/t$$\<close> the entry \<^verbatim>\<open>/r/a\<close> goes to \<^verbatim>\<open>/t$/a\<close>, and the
  whole tree is copied under \<^verbatim>\<open>/t$\<close>; with the destination root \<^verbatim>\<open>/t$&\<close> it goes to
  \<^verbatim>\<open>/t/r/a\<close>.
\<close>

theorem copy_target_reads_dollar_patterns:
  "replaceEsc ''/t$$'' = ''/t$$''
   \<and> copy_target (copy_flags True False \<lparr> currentPath := ''/r'', targetPath := ''/t$$'' \<rparr>) ''/r/a'' = ''/t$/a''
   \<and> copy_target (copy_flags True False \<lparr> currentPath := ''/r'', targetPath := ''/t$&'' \<rparr>) ''/r/a'' = ''/t/r/a''
   \<and> ncp 2 mem_fs ''/'' ''/r'' ''/t$$'' no_options scan_tree
       = Some (Inr (), scan_tree @ [(''/t$'', NDir 493), (''/t$/a'', NFile ''A'' 420),
                                   (''/t$/b'', NDir 493), (''/t$/b/c'', NFile ''C'' 420)])"
  by code_simp

section \<open>The depth of a scan\<close>

text \<open>
  The level handed to a child grows with its position among the names of its directory:
  after \<open>k\<close> names the next one is visited at level \<open>L + k + 1\<close>.
\<close>

lemma scan_parts_last_level:
  "scan_parts rec dir (parts @ [part]) results level =
     (case scan_parts rec dir parts results level of
        None \<Rightarrow> None
      | Some (Inl er) \<Rightarrow> Some (Inl er)
      | Some (Inr results1) \<Rightarrow>
          (case rec (join [dir, part]) results1 (level + int (length parts) + 1) of
             None \<Rightarrow> None
           | Some (Inl er) \<Rightarrow> Some (Inl er)
           | Some (Inr results2) \<Rightarrow> Some (Inr results2)))"
proof (induction parts arbitrary: results level)
  case Nil
  show ?case by (simp split: option.splits sum.splits)
next
  case (Cons p ps)
  show ?case
    by (simp add: Cons.IH algebra_simps split: option.splits sum.splits)
qed

text \<open>
  Claim C2 says that every child of a directory visited at level \<open>L\<close> is visited at level
  \<open>L + 1\<close>, so that a scan with the depth limit \<open>d\<close> records all entries of the levels
  \<open>0\<close> to \<open>d\<close>. The code does not do so: the children of one directory share the
  variable that \<^verbatim>\<open>++level\<close> increments, so the second child is visited at level
  \<open>L + 2\<close>. In the tree \<^verbatim>\<open>/r\<close> with the file \<^verbatim>\<open>a\<close> and the directory \<^verbatim>\<open>b\<close> holding
  the file \<^verbatim>\<open>c\<close>, a scan from level \<open>0\<close> with the depth limit \<open>2\<close> does not record
  \<^verbatim>\<open>/r/b/c\<close>, which is two levels below the root; the scan without a limit records it.
\<close>

theorem scanDeep_second_child_two_levels_down:
  "scanDeep_n 2 mem_fs \<lparr> scan_filter = None, depthLimit = Some 2 \<rparr> scan_tree ''/r'' [] 0
     = Some (Inr [(''/r'', dir_stats), (''/r/a'', file_stats), (''/r/b'', dir_stats)])
   \<and> scanDeep_n 2 mem_fs \<lparr> scan_filter = None, depthLimit = None \<rparr> scan_tree ''/r'' [] 0
     = Some (Inr [(''/r'', dir_stats), (''/r/a'', file_stats), (''/r/b'', dir_stats),
                  (''/r/b/c'', file_stats)])"
  by code_simp

section \<open>The cycle guard\<close>

text \<open>
  Claim C3 says that a copy whose destination lies inside the source fails with the
  cyclic-copy error before anything is written, and that a destination outside the source
  does not raise that error. The code does not do so for a source directly under the
  root: \<^verbatim>\<open>isSrcKid\<close> splits the destination at \<^verbatim>\<open>dirname(src) + sep\<close>, which is
  \<^verbatim>\<open>//\<close> there and never occurs, so it answers \<^verbatim>\<open>false\<close>. The copy of \<^verbatim>\<open>/a\<close> to
  \<^verbatim>\<open>/a/b\<close> creates the directory \<^verbatim>\<open>/a/b\<close> and fails only one level further down. In
  the other direction the split finds \<^verbatim>\<open>/a/\<close> anywhere in the destination: the copy of
  \<^verbatim>\<open>/a/b\<close> to \<^verbatim>\<open>/x/a/b/c\<close>, which is not inside the source, is refused as cyclic.
\<close>

theorem isSrcKid_misses_source_under_root:
  "isSrcKid ''/'' ''/a'' ''/a/b'' = False
   \<and> ncp 2 mem_fs ''/'' ''/a'' ''/a/b'' no_options top_tree
       = Some (Inl (JsError cyclic_message), top_tree @ [(''/a/b'', NDir 493)])
   \<and> isSrcKid ''/'' ''/a/b'' ''/x/a/b/c'' = True
   \<and> ncp 2 mem_fs ''/'' ''/a/b'' ''/x/a/b/c'' no_options nested_tree
       = Some (Inl (JsError cyclic_message), nested_tree)"
  by code_simp

section \<open>Recovery from a refused permission\<close>

text \<open>
  Claim C8 says that the recovery from a refused permission completes successfully when
  the entry has vanished, that is when \<^verbatim>\<open>chmod\<close> or the following \<^verbatim>\<open>stat\<close> fails with
  \<^verbatim>\<open>ENOENT\<close>. The code does not do so: \<^verbatim>\<open>fixWinEPERM\<close> throws \<^verbatim>\<open>null\<close> there, so it
  rejects with \<^verbatim>\<open>null\<close>, and so does \<^verbatim>\<open>rimraf\<close> on Windows when \<^verbatim>\<open>lstat\<close> was refused
  with \<^verbatim>\<open>EPERM\<close>.
\<close>

theorem fixWinEPERM_vanished_rejects:
  "(\<forall>er. fs_chmod ops myPath 666 s = Inl er \<and> code er = ''ENOENT'' \<longrightarrow>
       fixWinEPERM rm ops myPath err s = Some (Inl Null, s)
       \<and> (fs_lstat ops myPath s = Inl err \<and> code err = ''EPERM'' \<longrightarrow>
            rimraf rm ops True myPath s = Some (Inl Null, s)))
   \<and> (\<forall>er s1. fs_chmod ops myPath 666 s = Inr s1 \<and> fs_stat ops myPath s1 = Inl er \<and> code er = ''ENOENT'' \<longrightarrow>
       fixWinEPERM rm ops myPath err s = Some (Inl Null, s1))"
  by (simp add: fixWinEPERM_def rimraf_def)

theorem fixWinEPERM_vanished_rejects_witness:
  "fs_chmod locked_fs ''/gone'' 666 top_tree = Inl (mem_error ''ENOENT'' ''chmod'' ''/gone'')
   \<and> fs_lstat locked_fs ''/gone'' top_tree = Inl (mem_error ''EPERM'' ''lstat'' ''/gone'')
   \<and> fixWinEPERM (remove_n 0 locked_fs True) locked_fs ''/gone'' (mem_error ''EPERM'' ''lstat'' ''/gone'') top_tree = Some (Inl Null, top_tree)
   \<and> rimraf (remove_n 0 locked_fs True) locked_fs True ''/gone'' top_tree = Some (Inl Null, top_tree)"
proof -
  have ch: "fs_chmod locked_fs ''/gone'' 666 top_tree = Inl (mem_error ''ENOENT'' ''chmod'' ''/gone'')"
    by code_simp
  have ls: "fs_lstat locked_fs ''/gone'' top_tree = Inl (mem_error ''EPERM'' ''lstat'' ''/gone'')"
    by (simp add: locked_fs_def)
  have codes: "code (mem_error ''ENOENT'' ''chmod'' ''/gone'') = ''ENOENT''"
    "code (mem_error ''EPERM'' ''lstat'' ''/gone'') = ''EPERM''"
    by (simp_all add: mem_error_def)
  from fixWinEPERM_vanished_rejects
         [of locked_fs "''/gone''" top_tree "remove_n 0 locked_fs True" "mem_error ''EPERM'' ''lstat'' ''/gone''"]
       ch ls codes
  show ?thesis by simp
qed
section \<open>The filter of a copy\<close>





lemma startCopy_accepted:
  assumes "filter_fn options = None \<or> (\<exists>flt. filter_fn options = Some flt \<and> flt mySource (targetPath options))"
  shows "startCopy rec ops cwd mySource options s =
     (case (if dereference options then fs_stat ops else fs_lstat ops) mySource s of
        Inl er \<Rightarrow> Some (Inl (FsError er), s)
      | Inr st \<Rightarrow>
          if isDirectory st then copyDir rec ops cwd mySource (copy_target options mySource) st options s
          else if isSymbolicLink st
            then Some (copyLink ops cwd mySource (leaf_target ops options mySource s) options s)
          else if isFile st \<or> isCharacterDevice st \<or> isBlockDevice st
            then Some (copyFile ops mySource (leaf_target ops options mySource s) options s)
          else Some (Inl (JsError unknown_message), s))"
proof -
  from assms
  have pass: "(case filter_fn options of None \<Rightarrow> False | Some f \<Rightarrow> \<not> f mySource (targetPath options)) = False"
    by (auto split: option.splits)
  show ?thesis
  proof (cases "(if dereference options then fs_stat ops else fs_lstat ops) mySource s")
    case (Inl er)
    with pass show ?thesis by (simp add: startCopy_def)
  next
    case (Inr st)
    show ?thesis
    proof (cases "fs_stat ops (copy_target options mySource) s")
      case (Inl ter)
      with pass \<open>(if dereference options then fs_stat ops else fs_lstat ops) mySource s = Inr st\<close>
      show ?thesis
        by (cases "st_kind st")
           (simp_all add: startCopy_def leaf_target_def Let_def isDirectory_def isFile_def
              isSymbolicLink_def isCharacterDevice_def isBlockDevice_def)
    next
      case tst: (Inr tstats)
      with pass Inr show ?thesis
        by (cases "st_kind st")
           (simp_all add: startCopy_def leaf_target_def Let_def isDirectory_def isFile_def
              isSymbolicLink_def isCharacterDevice_def isBlockDevice_def)
    qed
  qed
qed




lemma startCopy_accepted_link:
  assumes f: "filter_fn options = Some flt" "flt mySource (targetPath options)"
    and st: "(if dereference options then fs_stat ops else fs_lstat ops) mySource s = Inr st"
    and k: "isSymbolicLink st"
  shows "startCopy rec ops cwd mySource options s =
           Some (copyLink ops cwd mySource (leaf_target ops options mySource s) options s)"
proof -
  from k have "\<not> isDirectory st"
    by (auto simp: isDirectory_def isSymbolicLink_def)
  with k st show ?thesis
    using startCopy_accepted [of options mySource rec ops cwd s] f by simp
qed







section \<open>Symbolic links\<close>

text \<open>
  Claim C5 says that a copied relative link resolves, from the directory of the
  destination, to the object the source link resolved to. It does not: \<^verbatim>\<open>copyLink\<close>
  creates the new link with the text that \<^verbatim>\<open>readlink\<close> gave, and \<^verbatim>\<open>symlinkPaths\<close> is
  not called. The link \<^verbatim>\<open>/a/l\<close> with the text \<^verbatim>\<open>x\<close> resolves to the file \<^verbatim>\<open>/a/x\<close>;
  its copy \<^verbatim>\<open>/b/c/l\<close> has the text \<^verbatim>\<open>x\<close> too and resolves to \<^verbatim>\<open>/b/c/x\<close>, which
  does not exist.
\<close>

theorem copyLink_relative_link_dangles:
  "ncp 0 mem_fs ''/'' ''/a/l'' ''/b/c/l'' no_options link_tree
     = Some (Inr (), link_tree @ [(''/b/c/l'', NLink ''x'')])
   \<and> mem_stat ''/a/l'' (link_tree @ [(''/b/c/l'', NLink ''x'')]) = Inr file_stats
   \<and> mem_stat ''/b/c/l'' (link_tree @ [(''/b/c/l'', NLink ''x'')]) = Inl (mem_error ''ENOENT'' ''stat'' ''/b/c/x'')"
  by code_simp

text \<open>
  Claim C5, amended. Without \<^verbatim>\<open>dereference\<close>, \<^verbatim>\<open>copy\<close> hands a symbolic link that the
  filter accepts to \<^verbatim>\<open>copyLink\<close> at the target of a leaf: the computed destination, or
  the base name of the source inside it when \<^verbatim>\<open>stat\<close> of the computed destination, which
  follows links, reports a directory. \<^verbatim>\<open>copyLink\<close> gives the link at that target the
  text of the source link as \<^verbatim>\<open>readlink\<close> returns it, relative or not, and rewrites
  nothing: when \<^verbatim>\<open>lstat\<close> of the target fails with \<^verbatim>\<open>ENOENT\<close>, a link with that text is
  made there; when the target is a link with the same text, nothing is done; when it is a
  link with another text, it is deleted and made anew with the text of the source; when
  \<^verbatim>\<open>readlink\<close> fails on the existing target, that error is the rejection.
\<close>

theorem copyLink_keeps_link_text:
  "\<not> dereference options \<Longrightarrow> filter_fn options = Some flt \<Longrightarrow> flt mySource (targetPath options) \<Longrightarrow>
   fs_lstat ops mySource s = Inr st \<Longrightarrow> isSymbolicLink st \<Longrightarrow>
   fs_readlink ops mySource s = Inr linkText \<Longrightarrow>
   leaf_target ops options mySource s =
     (case fs_stat ops (copy_target options mySource) s of
        Inl _ \<Rightarrow> copy_target options mySource
      | Inr tstats \<Rightarrow>
          if isDirectory tstats then join [copy_target options mySource, basename mySource]
          else copy_target options mySource)
   \<and> startCopy rec ops cwd mySource options s
       = Some (copyLink ops cwd mySource (leaf_target ops options mySource s) options s)
   \<and> (isWritable ops (leaf_target ops options mySource s) s = Inr True \<longrightarrow>
        startCopy rec ops cwd mySource options s
          = Some (run (fs_symlink ops linkText (leaf_target ops options mySource s) s) s))
   \<and> (\<forall>destText. isWritable ops (leaf_target ops options mySource s) s = Inr False
          \<and> fs_readlink ops (leaf_target ops options mySource s) s = Inr destText \<longrightarrow>
        startCopy rec ops cwd mySource options s =
          Some (if destText = linkText then (Inr (), s)
                else (case fs_unlink ops (leaf_target ops options mySource s) s of
                        Inl er \<Rightarrow> (Inl (FsError er), s)
                      | Inr s1 \<Rightarrow> run (fs_symlink ops linkText (leaf_target ops options mySource s) s1) s1)))
   \<and> (\<forall>er. isWritable ops (leaf_target ops options mySource s) s = Inr False
          \<and> fs_readlink ops (leaf_target ops options mySource s) s = Inl er \<longrightarrow>
        startCopy rec ops cwd mySource options s = Some (Inl (FsError er), s))
   \<and> (isWritable ops target s = Inr True \<longrightarrow>
        copyLink ops cwd mySource target options s = run (fs_symlink ops linkText target s) s)
   \<and> (\<forall>destText. isWritable ops target s = Inr False \<and> fs_readlink ops target s = Inr destText \<longrightarrow>
        copyLink ops cwd mySource target options s =
          (if destText = linkText then (Inr (), s)
           else (case fs_unlink ops target s of
                   Inl er \<Rightarrow> (Inl (FsError er), s)
                 | Inr s1 \<Rightarrow> run (fs_symlink ops linkText target s1) s1)))
   \<and> (\<forall>er. isWritable ops target s = Inr False \<and> fs_readlink ops target s = Inl er \<longrightarrow>
        copyLink ops cwd mySource target options s = (Inl (FsError er), s))"
proof -
  assume d: "\<not> dereference options" and f: "filter_fn options = Some flt"
    and a: "flt mySource (targetPath options)" and l: "fs_lstat ops mySource s = Inr st"
    and k: "isSymbolicLink st" and r: "fs_readlink ops mySource s = Inr linkText"
  from d l have l': "(if dereference options then fs_stat ops else fs_lstat ops) mySource s = Inr st"
    by simp
  have sc: "startCopy rec ops cwd mySource options s
       = Some (copyLink ops cwd mySource (leaf_target ops options mySource s) options s)"
    using f a l' k by (rule startCopy_accepted_link)
  have cl: "isWritable ops t s = Inr True \<longrightarrow>
        copyLink ops cwd mySource t options s = run (fs_symlink ops linkText t s) s" for t
    using d r by (simp add: copyLink_def)
  have ce: "\<forall>destText. isWritable ops t s = Inr False \<and> fs_readlink ops t s = Inr destText \<longrightarrow>
        copyLink ops cwd mySource t options s =
          (if destText = linkText then (Inr (), s)
           else (case fs_unlink ops t s of
                   Inl er \<Rightarrow> (Inl (FsError er), s)
                 | Inr s1 \<Rightarrow> run (fs_symlink ops linkText t s1) s1))" for t
    using d r by (simp add: copyLink_def)
  have cf: "\<forall>er. isWritable ops t s = Inr False \<and> fs_readlink ops t s = Inl er \<longrightarrow>
        copyLink ops cwd mySource t options s = (Inl (FsError er), s)" for t
    using d r by (simp add: copyLink_def)
  have lt: "leaf_target ops options mySource s =
     (case fs_stat ops (copy_target options mySource) s of
        Inl _ \<Rightarrow> copy_target options mySource
      | Inr tstats \<Rightarrow>
          if isDirectory tstats then join [copy_target options mySource, basename mySource]
          else copy_target options mySource)"
    by (simp add: leaf_target_def Let_def)
  show ?thesis
    using lt sc cl [of "leaf_target ops options mySource s"] ce [of "leaf_target ops options mySource s"]
      cf [of "leaf_target ops options mySource s"] cl [of target] ce [of target] cf [of target]
    by simp
qed


theorem copyLink_keeps_link_text_witness:
  "startCopy (startCopy_n 0 mem_fs ''/'') mem_fs ''/'' ''/a/l'' (link_options ''/b/c/l'') link_tree
     = Some (Inr (), link_tree @ [(''/b/c/l'', NLink ''x'')])
   \<and> leaf_target mem_fs (link_options ''/b/c'') ''/a/l'' link_tree = ''/b/c/l''
   \<and> startCopy (startCopy_n 0 mem_fs ''/'') mem_fs ''/'' ''/a/l'' (link_options ''/b/c'') link_tree
     = Some (Inr (), link_tree @ [(''/b/c/l'', NLink ''x'')])
   \<and> startCopy (startCopy_n 0 mem_fs ''/'') mem_fs ''/'' ''/a/l'' (link_options ''/b/c/l'')
         (link_tree @ [(''/b/c/l'', NLink ''x'')])
     = Some (Inr (), link_tree @ [(''/b/c/l'', NLink ''x'')])
   \<and> startCopy (startCopy_n 0 mem_fs ''/'') mem_fs ''/'' ''/a/l'' (link_options ''/b/c/l'')
         (link_tree @ [(''/b/c/l'', NLink ''../y'')])
     = Some (Inr (), link_tree @ [(''/b/c/l'', NLink ''x'')])
   \<and> startCopy (startCopy_n 0 mem_fs ''/'') mem_fs ''/'' ''/a/l'' (link_options ''/a/x'') link_tree
     = Some (Inl (FsError (mem_error ''EINVAL'' ''readlink'' ''/a/x'')), link_tree)
   \<and> copyLink mem_fs ''/'' ''/a/l'' ''/b/c/l'' (link_options ''/b/c'') link_tree
     = (Inr (), link_tree @ [(''/b/c/l'', NLink ''x'')])
   \<and> copyLink mem_fs ''/'' ''/a/l'' ''/b/c/l'' (link_options ''/b/c'') (link_tree @ [(''/b/c/l'', NLink ''../y'')])
     = (Inr (), link_tree @ [(''/b/c/l'', NLink ''x'')])"
proof -
  let ?rec = "startCopy_n 0 mem_fs ''/''"
  let ?same = "link_tree @ [(''/b/c/l'', NLink ''x'')]"
  let ?other = "link_tree @ [(''/b/c/l'', NLink ''../y'')]"
  have d: "\<not> dereference (link_options dest)"
    and f: "filter_fn (link_options dest) = Some (\<lambda>_ _. True)"
    and a: "(\<lambda>_ _. True) ''/a/l'' (targetPath (link_options dest))" for dest
    by (simp_all add: link_options_def)
  have k: "isSymbolicLink \<lparr>st_kind = SymbolicLink, st_mode = 511\<rparr>"
    by (simp add: isSymbolicLink_def)
  have l0: "fs_lstat mem_fs ''/a/l'' link_tree = Inr \<lparr>st_kind = SymbolicLink, st_mode = 511\<rparr>"
    and l1: "fs_lstat mem_fs ''/a/l'' ?same = Inr \<lparr>st_kind = SymbolicLink, st_mode = 511\<rparr>"
    and l2: "fs_lstat mem_fs ''/a/l'' ?other = Inr \<lparr>st_kind = SymbolicLink, st_mode = 511\<rparr>"
    by code_simp+
  have r0: "fs_readlink mem_fs ''/a/l'' link_tree = Inr ''x''"
    and r1: "fs_readlink mem_fs ''/a/l'' ?same = Inr ''x''"
    and r2: "fs_readlink mem_fs ''/a/l'' ?other = Inr ''x''"
    by code_simp+
  have t0: "leaf_target mem_fs (link_options ''/b/c/l'') ''/a/l'' link_tree = ''/b/c/l''"
    and tdir: "leaf_target mem_fs (link_options ''/b/c'') ''/a/l'' link_tree = ''/b/c/l''"
    and t1: "leaf_target mem_fs (link_options ''/b/c/l'') ''/a/l'' ?same = ''/b/c/l''"
    and t2: "leaf_target mem_fs (link_options ''/b/c/l'') ''/a/l'' ?other = ''/b/c/l''"
    and tfile: "leaf_target mem_fs (link_options ''/a/x'') ''/a/l'' link_tree = ''/a/x''"
    by code_simp+
  have w0: "isWritable mem_fs ''/b/c/l'' link_tree = Inr True"
    and w1: "isWritable mem_fs ''/b/c/l'' ?same = Inr False"
    and w2: "isWritable mem_fs ''/b/c/l'' ?other = Inr False"
    and wfile: "isWritable mem_fs ''/a/x'' link_tree = Inr False"
    by code_simp+
  have d1: "fs_readlink mem_fs ''/b/c/l'' ?same = Inr ''x''"
    and d2: "fs_readlink mem_fs ''/b/c/l'' ?other = Inr ''../y''"
    and dfile: "fs_readlink mem_fs ''/a/x'' link_tree = Inl (mem_error ''EINVAL'' ''readlink'' ''/a/x'')"
    by code_simp+
  have mk: "run (fs_symlink mem_fs ''x'' ''/b/c/l'' link_tree) link_tree = (Inr (), ?same)"
    by code_simp
  have remk: "(case fs_unlink mem_fs ''/b/c/l'' ?other of
                 Inl er \<Rightarrow> (Inl (FsError er), ?other)
               | Inr s1 \<Rightarrow> run (fs_symlink mem_fs ''x'' ''/b/c/l'' s1) s1) = (Inr (), ?same)"
    by code_simp
  have i1: "startCopy ?rec mem_fs ''/'' ''/a/l'' (link_options ''/b/c/l'') link_tree = Some (Inr (), ?same)"
    using copyLink_keeps_link_text [OF d [of "''/b/c/l''"] f [of "''/b/c/l''"] a l0 k r0, where rec = ?rec and cwd = "''/''"]
      t0 w0 mk by simp
  have i2: "startCopy ?rec mem_fs ''/'' ''/a/l'' (link_options ''/b/c'') link_tree = Some (Inr (), ?same)"
    using copyLink_keeps_link_text [OF d [of "''/b/c''"] f [of "''/b/c''"] a l0 k r0, where rec = ?rec and cwd = "''/''"]
      tdir w0 mk by simp
  have i3: "startCopy ?rec mem_fs ''/'' ''/a/l'' (link_options ''/b/c/l'') ?same = Some (Inr (), ?same)"
    using copyLink_keeps_link_text [OF d [of "''/b/c/l''"] f [of "''/b/c/l''"] a l1 k r1, where rec = ?rec and cwd = "''/''"]
      t1 w1 d1 by simp
  have i4: "startCopy ?rec mem_fs ''/'' ''/a/l'' (link_options ''/b/c/l'') ?other = Some (Inr (), ?same)"
    using copyLink_keeps_link_text [OF d [of "''/b/c/l''"] f [of "''/b/c/l''"] a l2 k r2, where rec = ?rec and cwd = "''/''"]
      t2 w2 d2 remk by simp
  have i5: "startCopy ?rec mem_fs ''/'' ''/a/l'' (link_options ''/a/x'') link_tree
     = Some (Inl (FsError (mem_error ''EINVAL'' ''readlink'' ''/a/x'')), link_tree)"
    using copyLink_keeps_link_text [OF d [of "''/a/x''"] f [of "''/a/x''"] a l0 k r0, where rec = ?rec and cwd = "''/''"
        and target = "''/a/x''"]
      tfile wfile dfile by simp
  have i6: "copyLink mem_fs ''/'' ''/a/l'' ''/b/c/l'' (link_options ''/b/c'') link_tree = (Inr (), ?same)"
    using copyLink_keeps_link_text [OF d [of "''/b/c''"] f [of "''/b/c''"] a l0 k r0, where cwd = "''/''"
        and target = "''/b/c/l''"] w0 mk by simp
  have i7: "copyLink mem_fs ''/'' ''/a/l'' ''/b/c/l'' (link_options ''/b/c'') ?other = (Inr (), ?same)"
    using copyLink_keeps_link_text [OF d [of "''/b/c''"] f [of "''/b/c''"] a l2 k r2, where cwd = "''/''"
        and target = "''/b/c/l''"] w2 d2 remk by simp
  from i1 tdir i2 i3 i4 i5 i6 i7 show ?thesis by simp
qed

section \<open>Which failures a removal hands on\<close>

text \<open>
  Claim C7 says that \<^verbatim>\<open>remove\<close> hands on unchanged every error whose class is none of
  busy, not-empty, exists and not-found, and that a not-empty failure of a directory delete
  is never surfaced. Neither holds. A refused permission is of none of the four classes,
  and it is recovered from: on Windows the \<^verbatim>\<open>unlink\<close> of the read-only file \<^verbatim>\<open>/ro\<close>
  fails with \<^verbatim>\<open>EPERM\<close>; \<^verbatim>\<open>rimraf\<close> then runs \<^verbatim>\<open>fixWinEPERM\<close>, which makes the file
  writable and deletes it, and the removal succeeds. Nor is an \<^verbatim>\<open>ENOTDIR\<close> of
  \<^verbatim>\<open>rmdir\<close> handed on: elsewhere, when the \<^verbatim>\<open>unlink\<close> of the file \<^verbatim>\<open>/d\<close> is refused
  with \<^verbatim>\<open>EPERM\<close>, \<^verbatim>\<open>rimraf\<close> tries \<^verbatim>\<open>rmdir\<close>, which fails with \<^verbatim>\<open>ENOTDIR\<close>, and
  what it rejects with is the error of \<^verbatim>\<open>unlink\<close>. And the second \<^verbatim>\<open>rmdir\<close>, the one
  of \<^verbatim>\<open>rmkids\<close>, is not guarded: where the listing of \<^verbatim>\<open>/r\<close> comes back empty
  although the directory is not, its \<^verbatim>\<open>ENOTEMPTY\<close> is what the caller gets.
\<close>

theorem rimraf_recovers_EPERM:
  "fs_lstat windows_fs ''/ro'' readonly_tree = Inr \<lparr> st_kind = File, st_mode = 292 \<rparr>
   \<and> fs_unlink windows_fs ''/ro'' readonly_tree = Inl (mem_error ''EPERM'' ''unlink'' ''/ro'')
   \<and> rimraf (remove_n 0 windows_fs True) windows_fs True ''/ro'' readonly_tree
       = Some (Inr (), [(''/'', NDir 493)])
   \<and> remove_n 0 windows_fs True ''/ro'' readonly_tree = Some (Inr (), [(''/'', NDir 493)])
   \<and> fs_unlink immutable_fs ''/d'' file_tree = Inl (mem_error ''EPERM'' ''unlink'' ''/d'')
   \<and> fs_rmdir immutable_fs ''/d'' file_tree = Inl (mem_error ''ENOTDIR'' ''rmdir'' ''/d'')
   \<and> rimraf (remove_n 0 immutable_fs False) immutable_fs False ''/d'' file_tree
       = Some (Inl (FsError (mem_error ''EPERM'' ''unlink'' ''/d'')), file_tree)
   \<and> fs_readdir blind_fs ''/r'' scan_tree = Inr []
   \<and> rimraf (remove_n 1 blind_fs False) blind_fs False ''/r'' scan_tree
       = Some (Inl (FsError (mem_error ''ENOTEMPTY'' ''rmdir'' ''/r'')), scan_tree)
   \<and> remove_n 2 blind_fs False ''/r'' scan_tree
       = Some (Inl (FsError (mem_error ''ENOTEMPTY'' ''rmdir'' ''/r'')), scan_tree)"
  by code_simp

text \<open>
  Claim C7, amended. What the remove engine hands on and what it recovers from:

  \<^item> \<^verbatim>\<open>rimraf\<close> hands on unchanged, with the filesystem as it was, every error of
    \<^verbatim>\<open>lstat\<close> other than \<^verbatim>\<open>EPERM\<close> on Windows; there it runs \<^verbatim>\<open>fixWinEPERM\<close> and hands
    on its rejection. An entry that \<^verbatim>\<open>lstat\<close> reports as a directory goes to
    \<^verbatim>\<open>removeDir\<close>. For any other entry a successful \<^verbatim>\<open>unlink\<close> is success, and an
    error of \<^verbatim>\<open>unlink\<close> is handed on unchanged unless its code is \<^verbatim>\<open>EPERM\<close> or
    \<^verbatim>\<open>EISDIR\<close>: with \<^verbatim>\<open>EPERM\<close> the answer is that of \<^verbatim>\<open>fixWinEPERM\<close> on Windows and
    of \<^verbatim>\<open>removeDir\<close> elsewhere, with \<^verbatim>\<open>EISDIR\<close> that of \<^verbatim>\<open>removeDir\<close>, each given the
    error of \<^verbatim>\<open>unlink\<close> as the original error.
  \<^item> \<^verbatim>\<open>removeDir\<close> succeeds when \<^verbatim>\<open>rmdir\<close> does. An error of \<^verbatim>\<open>rmdir\<close> with the code
    \<^verbatim>\<open>ENOTEMPTY\<close>, \<^verbatim>\<open>EEXIST\<close> or \<^verbatim>\<open>EPERM\<close> is not handed on: the answer is that of
    \<^verbatim>\<open>rmkids\<close>. With \<^verbatim>\<open>ENOTDIR\<close> the original error, when there is one, is the
    rejection. Every other error of \<^verbatim>\<open>rmdir\<close> is handed on unchanged.
  \<^item> \<^verbatim>\<open>rmkids\<close> hands on an error of \<^verbatim>\<open>readdir\<close>. For an empty listing it answers
    with the outcome of \<^verbatim>\<open>rmdir\<close>. Otherwise it removes every child; the rejection of a
    child is its rejection, and when all are removed it answers with the outcome of a
    second \<^verbatim>\<open>rmdir\<close>. An error of that \<^verbatim>\<open>rmdir\<close>, \<^verbatim>\<open>ENOTEMPTY\<close> included, is handed
    on unchanged.
  \<^item> \<^verbatim>\<open>fixWinEPERM\<close> rejects with the original error when \<^verbatim>\<open>chmod\<close> or \<^verbatim>\<open>stat\<close>
    fails with another code than \<^verbatim>\<open>ENOENT\<close>; else a directory goes to \<^verbatim>\<open>removeDir\<close>
    with the original error, and for any other entry the outcome of \<^verbatim>\<open>unlink\<close> is the
    answer.
\<close>

theorem rimraf_propagation:
  "(\<forall>er. fs_lstat ops myPath s = Inl er \<and> \<not> (code er = ''EPERM'' \<and> isWindows) \<longrightarrow>
       rimraf rm ops isWindows myPath s = Some (Inl (FsError er), s))
   \<and> (\<forall>er e s1. fs_lstat ops myPath s = Inl er \<and> code er = ''EPERM'' \<and> isWindows
         \<and> fixWinEPERM rm ops myPath er s = Some (Inl e, s1) \<longrightarrow>
       rimraf rm ops isWindows myPath s = Some (Inl e, s1))
   \<and> (\<forall>st. fs_lstat ops myPath s = Inr st \<and> isDirectory st \<longrightarrow>
       rimraf rm ops isWindows myPath s = removeDir rm ops myPath Null s)
   \<and> (\<forall>st s2. fs_lstat ops myPath s = Inr st \<and> \<not> isDirectory st \<and> fs_unlink ops myPath s = Inr s2 \<longrightarrow>
       rimraf rm ops isWindows myPath s = Some (Inr (), s2))
   \<and> (\<forall>st er. fs_lstat ops myPath s = Inr st \<and> \<not> isDirectory st \<and> fs_unlink ops myPath s = Inl er
         \<and> code er \<noteq> ''EPERM'' \<and> code er \<noteq> ''EISDIR'' \<longrightarrow>
       rimraf rm ops isWindows myPath s = Some (Inl (FsError er), s))
   \<and> (\<forall>st er. fs_lstat ops myPath s = Inr st \<and> \<not> isDirectory st \<and> fs_unlink ops myPath s = Inl er
         \<and> code er = ''EPERM'' \<and> isWindows \<longrightarrow>
       rimraf rm ops isWindows myPath s = fixWinEPERM rm ops myPath er s)
   \<and> (\<forall>st er. fs_lstat ops myPath s = Inr st \<and> \<not> isDirectory st \<and> fs_unlink ops myPath s = Inl er
         \<and> code er = ''EPERM'' \<and> \<not> isWindows \<longrightarrow>
       rimraf rm ops isWindows myPath s = removeDir rm ops myPath (FsError er) s)
   \<and> (\<forall>st er. fs_lstat ops myPath s = Inr st \<and> \<not> isDirectory st \<and> fs_unlink ops myPath s = Inl er
         \<and> code er = ''EISDIR'' \<longrightarrow>
       rimraf rm ops isWindows myPath s = removeDir rm ops myPath (FsError er) s)
   \<and> (\<forall>s1. fs_rmdir ops myPath s = Inr s1 \<longrightarrow>
       removeDir rm ops myPath originalEr s = Some (Inr (), s1))
   \<and> (\<forall>er. fs_rmdir ops myPath s = Inl er
         \<and> (code er = ''ENOTEMPTY'' \<or> code er = ''EEXIST'' \<or> code er = ''EPERM'') \<longrightarrow>
       removeDir rm ops myPath originalEr s = rmkids rm ops myPath s)
   \<and> (\<forall>er e0. fs_rmdir ops myPath s = Inl er \<and> code er = ''ENOTDIR'' \<and> originalEr = FsError e0 \<longrightarrow>
       removeDir rm ops myPath originalEr s = Some (Inl (FsError e0), s))
   \<and> (\<forall>er. fs_rmdir ops myPath s = Inl er \<and> code er \<noteq> ''ENOTEMPTY'' \<and> code er \<noteq> ''EEXIST''
         \<and> code er \<noteq> ''EPERM'' \<and> code er \<noteq> ''ENOTDIR'' \<longrightarrow>
       removeDir rm ops myPath originalEr s = Some (Inl (FsError er), s))
   \<and> (\<forall>er. fs_readdir ops myPath s = Inl er \<longrightarrow>
       rmkids rm ops myPath s = Some (Inl (FsError er), s))
   \<and> (fs_readdir ops myPath s = Inr [] \<longrightarrow>
       rmkids rm ops myPath s =
         (case fs_rmdir ops myPath s of
            Inl er \<Rightarrow> Some (Inl (FsError er), s)
          | Inr s2 \<Rightarrow> Some (Inr (), s2)))
   \<and> (\<forall>files e s1. fs_readdir ops myPath s = Inr files \<and> files \<noteq> []
         \<and> promise_all (\<lambda>file. rm (join [myPath, file])) files s = Some (Inl e, s1) \<longrightarrow>
       rmkids rm ops myPath s = Some (Inl e, s1))
   \<and> (\<forall>files settled s1. fs_readdir ops myPath s = Inr files \<and> files \<noteq> []
         \<and> promise_all (\<lambda>file. rm (join [myPath, file])) files s = Some (Inr settled, s1) \<longrightarrow>
       rmkids rm ops myPath s =
         (case fs_rmdir ops myPath s1 of
            Inl er \<Rightarrow> Some (Inl (FsError er), s1)
          | Inr s2 \<Rightarrow> Some (Inr (), s2)))
   \<and> (\<forall>er. fs_chmod ops myPath 666 s = Inl er \<and> code er \<noteq> ''ENOENT'' \<longrightarrow>
       fixWinEPERM rm ops myPath err s = Some (Inl (FsError err), s))
   \<and> (\<forall>s1 er. fs_chmod ops myPath 666 s = Inr s1 \<and> fs_stat ops myPath s1 = Inl er
         \<and> code er \<noteq> ''ENOENT'' \<longrightarrow>
       fixWinEPERM rm ops myPath err s = Some (Inl (FsError err), s1))
   \<and> (\<forall>s1 st. fs_chmod ops myPath 666 s = Inr s1 \<and> fs_stat ops myPath s1 = Inr st \<and> isDirectory st \<longrightarrow>
       fixWinEPERM rm ops myPath err s = removeDir rm ops myPath (FsError err) s1)
   \<and> (\<forall>s1 st. fs_chmod ops myPath 666 s = Inr s1 \<and> fs_stat ops myPath s1 = Inr st \<and> \<not> isDirectory st \<longrightarrow>
       fixWinEPERM rm ops myPath err s =
         (case fs_unlink ops myPath s1 of
            Inl er \<Rightarrow> Some (Inl (FsError er), s1)
          | Inr s2 \<Rightarrow> Some (Inr (), s2)))"
  by (simp add: rimraf_def removeDir_def rmkids_def fixWinEPERM_def run_def split: sum.splits)


theorem rimraf_propagation_witness:
  "rimraf (remove_n 0 mem_fs False) mem_fs False ''/d/x'' file_tree
     = Some (Inl (FsError (mem_error ''ENOTDIR'' ''lstat'' ''/d/x'')), file_tree)
   \<and> rimraf (remove_n 0 locked_fs True) locked_fs True ''/d/x'' file_tree
     = Some (Inl (FsError (mem_error ''EPERM'' ''lstat'' ''/d/x'')), file_tree)
   \<and> rimraf (remove_n 1 mem_fs False) mem_fs False ''/r'' scan_tree
     = removeDir (remove_n 1 mem_fs False) mem_fs ''/r'' Null scan_tree
   \<and> rimraf (remove_n 0 mem_fs False) mem_fs False ''/d'' file_tree
     = Some (Inr (), [(''/'', NDir 493), (''/s'', NFile ''new'' 420)])
   \<and> rimraf (remove_n 0 readonly_fs False) readonly_fs False ''/d'' file_tree
     = Some (Inl (FsError (mem_error ''EACCES'' ''unlink'' ''/d'')), file_tree)
   \<and> rimraf (remove_n 0 windows_fs True) windows_fs True ''/ro'' readonly_tree
     = fixWinEPERM (remove_n 0 windows_fs True) windows_fs ''/ro'' (mem_error ''EPERM'' ''unlink'' ''/ro'') readonly_tree
   \<and> rimraf (remove_n 0 immutable_fs False) immutable_fs False ''/d'' file_tree
     = removeDir (remove_n 0 immutable_fs False) immutable_fs ''/d'' (FsError (mem_error ''EPERM'' ''unlink'' ''/d'')) file_tree
   \<and> rimraf (remove_n 0 stale_fs False) stale_fs False ''/a'' top_tree
     = removeDir (remove_n 0 stale_fs False) stale_fs ''/a'' (FsError (mem_error ''EISDIR'' ''unlink'' ''/a'')) top_tree
   \<and> removeDir (remove_n 0 mem_fs False) mem_fs ''/a'' Null top_tree = Some (Inr (), [(''/'', NDir 493)])
   \<and> removeDir (remove_n 1 mem_fs False) mem_fs ''/r'' Null scan_tree
     = rmkids (remove_n 1 mem_fs False) mem_fs ''/r'' scan_tree
   \<and> removeDir (remove_n 0 immutable_fs False) immutable_fs ''/d'' (FsError (mem_error ''EPERM'' ''unlink'' ''/d'')) file_tree
     = Some (Inl (FsError (mem_error ''EPERM'' ''unlink'' ''/d'')), file_tree)
   \<and> removeDir (remove_n 0 readonly_fs False) readonly_fs ''/r'' Null scan_tree
     = Some (Inl (FsError (mem_error ''EACCES'' ''rmdir'' ''/r'')), scan_tree)
   \<and> rmkids (remove_n 0 mem_fs False) mem_fs ''/gone'' top_tree
     = Some (Inl (FsError (mem_error ''ENOENT'' ''scandir'' ''/gone'')), top_tree)
   \<and> rmkids (remove_n 0 mem_fs False) mem_fs ''/a'' top_tree = Some (Inr (), [(''/'', NDir 493)])
   \<and> rmkids (remove_n 0 blind_fs False) blind_fs ''/r'' scan_tree
     = Some (Inl (FsError (mem_error ''ENOTEMPTY'' ''rmdir'' ''/r'')), scan_tree)
   \<and> rmkids (remove_n 0 readonly_fs False) readonly_fs ''/r/b'' scan_tree
     = Some (Inl (FsError (mem_error ''EACCES'' ''unlink'' ''/r/b/c'')), scan_tree)
   \<and> rmkids (remove_n 1 mem_fs False) mem_fs ''/r'' scan_tree = Some (Inr (), [(''/'', NDir 493)])
   \<and> fixWinEPERM (remove_n 0 mem_fs True) mem_fs ''/d/x'' (mem_error ''EPERM'' ''unlink'' ''/d/x'') file_tree
     = Some (Inl (FsError (mem_error ''EPERM'' ''unlink'' ''/d/x'')), file_tree)
   \<and> fixWinEPERM (remove_n 0 mem_fs True) mem_fs ''/l'' (mem_error ''EPERM'' ''unlink'' ''/l'') dangling_tree
     = Some (Inl (FsError (mem_error ''EPERM'' ''unlink'' ''/l'')), dangling_tree)
   \<and> fixWinEPERM (remove_n 0 mem_fs True) mem_fs ''/a'' (mem_error ''EPERM'' ''unlink'' ''/a'') top_tree
     = removeDir (remove_n 0 mem_fs True) mem_fs ''/a'' (FsError (mem_error ''EPERM'' ''unlink'' ''/a''))
         [(''/'', NDir 493), (''/a'', NDir 666)]
   \<and> fixWinEPERM (remove_n 0 windows_fs True) windows_fs ''/ro'' (mem_error ''EPERM'' ''unlink'' ''/ro'') readonly_tree
     = Some (Inr (), [(''/'', NDir 493)])"
proof -
  have codes:
    "code (mem_error ''ENOTDIR'' ''lstat'' ''/d/x'') = ''ENOTDIR''"
    "code (mem_error ''EPERM'' ''lstat'' ''/d/x'') = ''EPERM''"
    "code (mem_error ''EACCES'' ''unlink'' ''/d'') = ''EACCES''"
    "code (mem_error ''EPERM'' ''unlink'' ''/ro'') = ''EPERM''"
    "code (mem_error ''EPERM'' ''unlink'' ''/d'') = ''EPERM''"
    "code (mem_error ''EISDIR'' ''unlink'' ''/a'') = ''EISDIR''"
    "code (mem_error ''ENOTEMPTY'' ''rmdir'' ''/r'') = ''ENOTEMPTY''"
    "code (mem_error ''ENOTDIR'' ''rmdir'' ''/d'') = ''ENOTDIR''"
    "code (mem_error ''EACCES'' ''rmdir'' ''/r'') = ''EACCES''"
    "code (mem_error ''ENOTDIR'' ''chmod'' ''/d/x'') = ''ENOTDIR''"
    "code (mem_error ''ENOTDIR'' ''stat'' ''/d/x'') = ''ENOTDIR''"
    by (simp_all add: mem_error_def)
  have kinds: "\<not> isDirectory \<lparr>st_kind = File, st_mode = 384\<rparr>"
    "\<not> isDirectory \<lparr>st_kind = File, st_mode = 292\<rparr>"
    "\<not> isDirectory \<lparr>st_kind = File, st_mode = 666\<rparr>"
    "\<not> isDirectory file_stats" "isDirectory dir_stats"
    "isDirectory \<lparr>st_kind = Directory, st_mode = 666\<rparr>"
    by (simp_all add: isDirectory_def file_stats_def dir_stats_def)
  \<comment> \<open>\<^verbatim>\<open>rimraf\<close>\<close>
  have l1: "fs_lstat mem_fs ''/d/x'' file_tree = Inl (mem_error ''ENOTDIR'' ''lstat'' ''/d/x'')"
    by code_simp
  have a1: "rimraf (remove_n 0 mem_fs False) mem_fs False ''/d/x'' file_tree
     = Some (Inl (FsError (mem_error ''ENOTDIR'' ''lstat'' ''/d/x'')), file_tree)"
    using rimraf_propagation [where ops = mem_fs and myPath = "''/d/x''" and s = file_tree
        and isWindows = False and rm = "remove_n 0 mem_fs False"] l1 codes
    by simp
  have l2: "fs_lstat locked_fs ''/d/x'' file_tree = Inl (mem_error ''EPERM'' ''lstat'' ''/d/x'')"
    and f2: "fixWinEPERM (remove_n 0 locked_fs True) locked_fs ''/d/x'' (mem_error ''EPERM'' ''lstat'' ''/d/x'') file_tree
               = Some (Inl (FsError (mem_error ''EPERM'' ''lstat'' ''/d/x'')), file_tree)"
    by code_simp+
  have a2: "rimraf (remove_n 0 locked_fs True) locked_fs True ''/d/x'' file_tree
     = Some (Inl (FsError (mem_error ''EPERM'' ''lstat'' ''/d/x'')), file_tree)"
    using rimraf_propagation [where ops = locked_fs and myPath = "''/d/x''" and s = file_tree
        and isWindows = True and rm = "remove_n 0 locked_fs True"] l2 f2 codes
    by simp
  have l3: "fs_lstat mem_fs ''/r'' scan_tree = Inr dir_stats"
    by code_simp
  have a3: "rimraf (remove_n 1 mem_fs False) mem_fs False ''/r'' scan_tree
     = removeDir (remove_n 1 mem_fs False) mem_fs ''/r'' Null scan_tree"
    using rimraf_propagation [where ops = mem_fs and myPath = "''/r''" and s = scan_tree
        and isWindows = False and rm = "remove_n 1 mem_fs False"] l3 kinds
    by simp
  have l4: "fs_lstat mem_fs ''/d'' file_tree = Inr \<lparr>st_kind = File, st_mode = 384\<rparr>"
    and u4: "fs_unlink mem_fs ''/d'' file_tree = Inr [(''/'', NDir 493), (''/s'', NFile ''new'' 420)]"
    by code_simp+
  have a4: "rimraf (remove_n 0 mem_fs False) mem_fs False ''/d'' file_tree
     = Some (Inr (), [(''/'', NDir 493), (''/s'', NFile ''new'' 420)])"
    using rimraf_propagation [where ops = mem_fs and myPath = "''/d''" and s = file_tree
        and isWindows = False and rm = "remove_n 0 mem_fs False"] l4 u4 kinds
    by simp
  have l5: "fs_lstat readonly_fs ''/d'' file_tree = Inr \<lparr>st_kind = File, st_mode = 384\<rparr>"
    and u5: "fs_unlink readonly_fs ''/d'' file_tree = Inl (mem_error ''EACCES'' ''unlink'' ''/d'')"
    by code_simp+
  have a5: "rimraf (remove_n 0 readonly_fs False) readonly_fs False ''/d'' file_tree
     = Some (Inl (FsError (mem_error ''EACCES'' ''unlink'' ''/d'')), file_tree)"
    using rimraf_propagation [where ops = readonly_fs and myPath = "''/d''" and s = file_tree
        and isWindows = False and rm = "remove_n 0 readonly_fs False"] l5 u5 kinds codes
    by simp
  have l6: "fs_lstat windows_fs ''/ro'' readonly_tree = Inr \<lparr>st_kind = File, st_mode = 292\<rparr>"
    and u6: "fs_unlink windows_fs ''/ro'' readonly_tree = Inl (mem_error ''EPERM'' ''unlink'' ''/ro'')"
    by code_simp+
  have a6: "rimraf (remove_n 0 windows_fs True) windows_fs True ''/ro'' readonly_tree
     = fixWinEPERM (remove_n 0 windows_fs True) windows_fs ''/ro'' (mem_error ''EPERM'' ''unlink'' ''/ro'') readonly_tree"
    using rimraf_propagation [where ops = windows_fs and myPath = "''/ro''" and s = readonly_tree
        and isWindows = True and rm = "remove_n 0 windows_fs True"] l6 u6 kinds codes
    by simp
  have l7: "fs_lstat immutable_fs ''/d'' file_tree = Inr \<lparr>st_kind = File, st_mode = 384\<rparr>"
    and u7: "fs_unlink immutable_fs ''/d'' file_tree = Inl (mem_error ''EPERM'' ''unlink'' ''/d'')"
    by code_simp+
  have a7: "rimraf (remove_n 0 immutable_fs False) immutable_fs False ''/d'' file_tree
     = removeDir (remove_n 0 immutable_fs False) immutable_fs ''/d'' (FsError (mem_error ''EPERM'' ''unlink'' ''/d'')) file_tree"
    using rimraf_propagation [where ops = immutable_fs and myPath = "''/d''" and s = file_tree
        and isWindows = False and rm = "remove_n 0 immutable_fs False"] l7 u7 kinds codes
    by simp
  have l8: "fs_lstat stale_fs ''/a'' top_tree = Inr file_stats"
    and u8: "fs_unlink stale_fs ''/a'' top_tree = Inl (mem_error ''EISDIR'' ''unlink'' ''/a'')"
    by code_simp+
  have a8: "rimraf (remove_n 0 stale_fs False) stale_fs False ''/a'' top_tree
     = removeDir (remove_n 0 stale_fs False) stale_fs ''/a'' (FsError (mem_error ''EISDIR'' ''unlink'' ''/a'')) top_tree"
    using rimraf_propagation [where ops = stale_fs and myPath = "''/a''" and s = top_tree
        and isWindows = False and rm = "remove_n 0 stale_fs False"] l8 u8 kinds codes
    by simp
  \<comment> \<open>\<^verbatim>\<open>removeDir\<close>\<close>
  have r9: "fs_rmdir mem_fs ''/a'' top_tree = Inr [(''/'', NDir 493)]"
    by code_simp
  have a9: "removeDir (remove_n 0 mem_fs False) mem_fs ''/a'' Null top_tree = Some (Inr (), [(''/'', NDir 493)])"
    using rimraf_propagation [where ops = mem_fs and myPath = "''/a''" and s = top_tree
        and rm = "remove_n 0 mem_fs False" and originalEr = Null] r9
    by simp
  have r10: "fs_rmdir mem_fs ''/r'' scan_tree = Inl (mem_error ''ENOTEMPTY'' ''rmdir'' ''/r'')"
    by code_simp
  have a10: "removeDir (remove_n 1 mem_fs False) mem_fs ''/r'' Null scan_tree
     = rmkids (remove_n 1 mem_fs False) mem_fs ''/r'' scan_tree"
    using rimraf_propagation [where ops = mem_fs and myPath = "''/r''" and s = scan_tree
        and rm = "remove_n 1 mem_fs False" and originalEr = Null] r10 codes
    by simp
  have r11: "fs_rmdir immutable_fs ''/d'' file_tree = Inl (mem_error ''ENOTDIR'' ''rmdir'' ''/d'')"
    by code_simp
  have a11: "removeDir (remove_n 0 immutable_fs False) immutable_fs ''/d'' (FsError (mem_error ''EPERM'' ''unlink'' ''/d'')) file_tree
     = Some (Inl (FsError (mem_error ''EPERM'' ''unlink'' ''/d'')), file_tree)"
    using rimraf_propagation [where ops = immutable_fs and myPath = "''/d''" and s = file_tree
        and rm = "remove_n 0 immutable_fs False"
        and originalEr = "FsError (mem_error ''EPERM'' ''unlink'' ''/d'')"] r11 codes
    by simp
  have r12: "fs_rmdir readonly_fs ''/r'' scan_tree = Inl (mem_error ''EACCES'' ''rmdir'' ''/r'')"
    by code_simp
  have a12: "removeDir (remove_n 0 readonly_fs False) readonly_fs ''/r'' Null scan_tree
     = Some (Inl (FsError (mem_error ''EACCES'' ''rmdir'' ''/r'')), scan_tree)"
    using rimraf_propagation [where ops = readonly_fs and myPath = "''/r''" and s = scan_tree
        and rm = "remove_n 0 readonly_fs False" and originalEr = Null] r12 codes
    by simp
  \<comment> \<open>\<^verbatim>\<open>rmkids\<close>\<close>
  have d13: "fs_readdir mem_fs ''/gone'' top_tree = Inl (mem_error ''ENOENT'' ''scandir'' ''/gone'')"
    by code_simp
  have a13: "rmkids (remove_n 0 mem_fs False) mem_fs ''/gone'' top_tree
     = Some (Inl (FsError (mem_error ''ENOENT'' ''scandir'' ''/gone'')), top_tree)"
    using rimraf_propagation [where ops = mem_fs and myPath = "''/gone''" and s = top_tree
        and rm = "remove_n 0 mem_fs False"] d13
    by simp
  have d14: "fs_readdir mem_fs ''/a'' top_tree = Inr []"
    by code_simp
  have a14: "rmkids (remove_n 0 mem_fs False) mem_fs ''/a'' top_tree = Some (Inr (), [(''/'', NDir 493)])"
    using rimraf_propagation [where ops = mem_fs and myPath = "''/a''" and s = top_tree
        and rm = "remove_n 0 mem_fs False"] d14 r9
    by simp
  have d15: "fs_readdir blind_fs ''/r'' scan_tree = Inr []"
    and r15: "fs_rmdir blind_fs ''/r'' scan_tree = Inl (mem_error ''ENOTEMPTY'' ''rmdir'' ''/r'')"
    by code_simp+
  have a15: "rmkids (remove_n 0 blind_fs False) blind_fs ''/r'' scan_tree
     = Some (Inl (FsError (mem_error ''ENOTEMPTY'' ''rmdir'' ''/r'')), scan_tree)"
    using rimraf_propagation [where ops = blind_fs and myPath = "''/r''" and s = scan_tree
        and rm = "remove_n 0 blind_fs False"] d15 r15
    by simp
  have d16: "fs_readdir readonly_fs ''/r/b'' scan_tree = Inr [''c'']"
    and k16: "promise_all (\<lambda>file. remove_n 0 readonly_fs False (join [''/r/b'', file])) [''c''] scan_tree
                = Some (Inl (FsError (mem_error ''EACCES'' ''unlink'' ''/r/b/c'')), scan_tree)"
    by code_simp+
  have a16: "rmkids (remove_n 0 readonly_fs False) readonly_fs ''/r/b'' scan_tree
     = Some (Inl (FsError (mem_error ''EACCES'' ''unlink'' ''/r/b/c'')), scan_tree)"
    using rimraf_propagation [where ops = readonly_fs and myPath = "''/r/b''" and s = scan_tree
        and rm = "remove_n 0 readonly_fs False"] d16 k16
    by simp
  have d17: "fs_readdir mem_fs ''/r'' scan_tree = Inr [''a'', ''b'']"
    and k17: "promise_all (\<lambda>file. remove_n 1 mem_fs False (join [''/r'', file])) [''a'', ''b''] scan_tree
              = Some (Inr [(), ()], [(''/'', NDir 493), (''/r'', NDir 493)])"
    and r17: "fs_rmdir mem_fs ''/r'' [(''/'', NDir 493), (''/r'', NDir 493)] = Inr [(''/'', NDir 493)]"
    by code_simp+
  have a17: "rmkids (remove_n 1 mem_fs False) mem_fs ''/r'' scan_tree = Some (Inr (), [(''/'', NDir 493)])"
    using rimraf_propagation [where ops = mem_fs and myPath = "''/r''" and s = scan_tree
        and rm = "remove_n 1 mem_fs False"] d17 k17 r17
    by simp
  \<comment> \<open>\<^verbatim>\<open>fixWinEPERM\<close>\<close>
  have c18: "fs_chmod mem_fs ''/d/x'' 666 file_tree = Inl (mem_error ''ENOTDIR'' ''chmod'' ''/d/x'')"
    by code_simp
  have a18: "fixWinEPERM (remove_n 0 mem_fs True) mem_fs ''/d/x'' (mem_error ''EPERM'' ''unlink'' ''/d/x'') file_tree
     = Some (Inl (FsError (mem_error ''EPERM'' ''unlink'' ''/d/x'')), file_tree)"
    using rimraf_propagation [where ops = mem_fs and myPath = "''/d/x''" and s = file_tree
        and rm = "remove_n 0 mem_fs True" and err = "mem_error ''EPERM'' ''unlink'' ''/d/x''"] c18 codes
    by simp
  have c19: "fs_chmod mem_fs ''/l'' 666 dangling_tree = Inr dangling_tree"
    and s19: "fs_stat mem_fs ''/l'' dangling_tree = Inl (mem_error ''ENOTDIR'' ''stat'' ''/d/x'')"
    by code_simp+
  have a19: "fixWinEPERM (remove_n 0 mem_fs True) mem_fs ''/l'' (mem_error ''EPERM'' ''unlink'' ''/l'') dangling_tree
     = Some (Inl (FsError (mem_error ''EPERM'' ''unlink'' ''/l'')), dangling_tree)"
    using rimraf_propagation [where ops = mem_fs and myPath = "''/l''" and s = dangling_tree
        and rm = "remove_n 0 mem_fs True" and err = "mem_error ''EPERM'' ''unlink'' ''/l''"] c19 s19 codes
    by simp
  have c20: "fs_chmod mem_fs ''/a'' 666 top_tree = Inr [(''/'', NDir 493), (''/a'', NDir 666)]"
    and s20: "fs_stat mem_fs ''/a'' [(''/'', NDir 493), (''/a'', NDir 666)] = Inr \<lparr>st_kind = Directory, st_mode = 666\<rparr>"
    by code_simp+
  have a20: "fixWinEPERM (remove_n 0 mem_fs True) mem_fs ''/a'' (mem_error ''EPERM'' ''unlink'' ''/a'') top_tree
     = removeDir (remove_n 0 mem_fs True) mem_fs ''/a'' (FsError (mem_error ''EPERM'' ''unlink'' ''/a''))
         [(''/'', NDir 493), (''/a'', NDir 666)]"
    using rimraf_propagation [where ops = mem_fs and myPath = "''/a''" and s = top_tree
        and rm = "remove_n 0 mem_fs True" and err = "mem_error ''EPERM'' ''unlink'' ''/a''"] c20 s20 kinds
    by simp
  have c21: "fs_chmod windows_fs ''/ro'' 666 readonly_tree = Inr [(''/'', NDir 493), (''/ro'', NFile ''data'' 666)]"
    and s21: "fs_stat windows_fs ''/ro'' [(''/'', NDir 493), (''/ro'', NFile ''data'' 666)]
                = Inr \<lparr>st_kind = File, st_mode = 666\<rparr>"
    and u21: "fs_unlink windows_fs ''/ro'' [(''/'', NDir 493), (''/ro'', NFile ''data'' 666)] = Inr [(''/'', NDir 493)]"
    by code_simp+
  have a21: "fixWinEPERM (remove_n 0 windows_fs True) windows_fs ''/ro'' (mem_error ''EPERM'' ''unlink'' ''/ro'') readonly_tree
     = Some (Inr (), [(''/'', NDir 493)])"
    using rimraf_propagation [where ops = windows_fs and myPath = "''/ro''" and s = readonly_tree
        and rm = "remove_n 0 windows_fs True" and err = "mem_error ''EPERM'' ''unlink'' ''/ro''"] c21 s21 u21 kinds
    by simp
  from a1 a2 a3 a4 a5 a6 a7 a8 a9 a10 a11 a12 a13 a14 a15 a16 a17 a18 a19 a20 a21
  show ?thesis by simp
qed

section \<open>Removing an absent path\<close>

lemma consistent_fsD:
  "consistent_fs ops \<Longrightarrow>
     (case fs_unlink ops p s of
        Inr s' \<Rightarrow> absent ops p s'
      | Inl er \<Rightarrow> code er = ''ENOENT'' \<longrightarrow> absent ops p s)
   \<and> (case fs_rmdir ops p s of
        Inr s' \<Rightarrow> absent ops p s'
      | Inl er \<Rightarrow> code er = ''ENOENT'' \<longrightarrow> absent ops p s)
   \<and> (case fs_readdir ops p s of
        Inr _ \<Rightarrow> True
      | Inl er \<Rightarrow> code er = ''ENOENT'' \<longrightarrow> absent ops p s)"
  by (simp add: consistent_fs_def)

lemma consistent_unlink_ok: "consistent_fs ops \<Longrightarrow> fs_unlink ops p s = Inr s' \<Longrightarrow> absent ops p s'"
  using consistent_fsD [of ops p s] by simp

lemma consistent_unlink_err:
  "consistent_fs ops \<Longrightarrow> fs_unlink ops p s = Inl er \<Longrightarrow> code er = ''ENOENT'' \<Longrightarrow> absent ops p s"
  using consistent_fsD [of ops p s] by simp

lemma consistent_rmdir_ok: "consistent_fs ops \<Longrightarrow> fs_rmdir ops p s = Inr s' \<Longrightarrow> absent ops p s'"
  using consistent_fsD [of ops p s] by simp

lemma consistent_rmdir_err:
  "consistent_fs ops \<Longrightarrow> fs_rmdir ops p s = Inl er \<Longrightarrow> code er = ''ENOENT'' \<Longrightarrow> absent ops p s"
  using consistent_fsD [of ops p s] by simp

lemma consistent_readdir_err:
  "consistent_fs ops \<Longrightarrow> fs_readdir ops p s = Inl er \<Longrightarrow> code er = ''ENOENT'' \<Longrightarrow> absent ops p s"
  using consistent_fsD [of ops p s] by simp

lemma run_unlink_leaves_absent:
  "consistent_fs ops \<Longrightarrow> leaves_absent ops p (run (fs_unlink ops p s) s)"
  by (auto simp: run_def leaves_absent_def split: sum.splits
           dest: consistent_unlink_ok consistent_unlink_err)

lemma run_rmdir_leaves_absent:
  "consistent_fs ops \<Longrightarrow> leaves_absent ops p (run (fs_rmdir ops p s) s)"
  by (auto simp: run_def leaves_absent_def split: sum.splits
           dest: consistent_rmdir_ok consistent_rmdir_err)

lemma promise_all_rejection:
  "promise_all f xs s = Some (Inl e, s1) \<Longrightarrow> \<exists>x s0 s0'. f x s0 = Some (Inl e, s0')"
proof (induction xs arbitrary: s s1)
  case Nil
  then show ?case by simp
next
  case (Cons x xs)
  then show ?case
    by (auto split: option.splits sum.splits prod.splits)
qed

lemma rmkids_leaves_absent:
  assumes c: "consistent_fs ops" and n: "never_not_found rm"
    and r: "rmkids rm ops p s = Some out"
  shows "leaves_absent ops p out"
proof (cases "fs_readdir ops p s")
  case (Inl er)
  with r c show ?thesis
    by (auto simp: rmkids_def leaves_absent_def dest: consistent_readdir_err)
next
  case (Inr files)
  show ?thesis
  proof (cases "files = []")
    case True
    with r Inr c show ?thesis
      by (auto simp: rmkids_def intro: run_rmdir_leaves_absent)
  next
    case False
    show ?thesis
    proof (cases "promise_all (\<lambda>file. rm (join [p, file])) files s")
      case None
      with r Inr False show ?thesis by (simp add: rmkids_def)
    next
      case (Some res)
      obtain kids s1 where res: "res = (kids, s1)" by (cases res)
      show ?thesis
      proof (cases kids)
        case (Inl e)
        with Some res have "\<exists>x s0 s0'. rm (join [p, x]) s0 = Some (Inl e, s0')"
          using promise_all_rejection [of "\<lambda>file. rm (join [p, file])" files s e s1] by simp
        with n have "\<forall>er. e = FsError er \<longrightarrow> code er \<noteq> ''ENOENT''"
          unfolding never_not_found_def by blast
        moreover from r Inr False Some res Inl have "out = (Inl e, s1)"
          by (simp add: rmkids_def)
        ultimately show ?thesis
          by (cases e) (simp_all add: leaves_absent_def)
      next
        case (Inr us)
        with r \<open>fs_readdir ops p s = Inr files\<close> False Some res
        have "out = run (fs_rmdir ops p s1) s1"
          by (simp add: rmkids_def)
        with c show ?thesis by (simp add: run_rmdir_leaves_absent)
      qed
    qed
  qed
qed

lemma removeDir_leaves_absent:
  assumes c: "consistent_fs ops" and n: "never_not_found rm"
    and o: "\<forall>er. originalEr = FsError er \<longrightarrow> code er \<noteq> ''ENOENT''"
    and r: "removeDir rm ops p originalEr s = Some out"
  shows "leaves_absent ops p out"
proof (cases "fs_rmdir ops p s")
  case (Inr s1)
  with r c show ?thesis
    by (auto simp: removeDir_def leaves_absent_def dest: consistent_rmdir_ok)
next
  case (Inl er)
  show ?thesis
  proof (cases "code er = ''ENOTEMPTY'' \<or> code er = ''EEXIST'' \<or> code er = ''EPERM''")
    case True
    with r Inl have "rmkids rm ops p s = Some out"
      by (simp add: removeDir_def)
    with c n show ?thesis by (rule rmkids_leaves_absent)
  next
    case False
    show ?thesis
    proof (cases "code er = ''ENOTDIR''")
      case True
      with r Inl False have "out = (Inl originalEr, s)"
        by (simp add: removeDir_def)
      with o show ?thesis
        by (cases originalEr) (simp_all add: leaves_absent_def)
    next
      case nd: False
      with r Inl False have "out = (Inl (FsError er), s)"
        by (simp add: removeDir_def)
      with c Inl show ?thesis
        by (auto simp: leaves_absent_def dest: consistent_rmdir_err)
    qed
  qed
qed

lemma fixWinEPERM_leaves_absent:
  assumes c: "consistent_fs ops" and n: "never_not_found rm"
    and e: "code err \<noteq> ''ENOENT''"
    and r: "fixWinEPERM rm ops p err s = Some out"
  shows "leaves_absent ops p out"
proof (cases "fs_chmod ops p 666 s")
  case (Inl er)
  with r e show ?thesis
    by (auto simp: fixWinEPERM_def leaves_absent_def)
next
  case (Inr s1)
  show ?thesis
  proof (cases "fs_stat ops p s1")
    case (Inl er)
    with r e Inr show ?thesis
      by (auto simp: fixWinEPERM_def leaves_absent_def)
  next
    case st: (Inr st)
    show ?thesis
    proof (cases "isDirectory st")
      case True
      with r Inr st have "removeDir rm ops p (FsError err) s1 = Some out"
        by (simp add: fixWinEPERM_def)
      with c n e show ?thesis
        by (intro removeDir_leaves_absent [of ops rm "FsError err" p s1 out]) simp_all
    next
      case False
      with r Inr st have "out = run (fs_unlink ops p s1) s1"
        by (simp add: fixWinEPERM_def)
      with c show ?thesis by (simp add: run_unlink_leaves_absent)
    qed
  qed
qed

lemma unlink_step_leaves_absent:
  assumes c: "consistent_fs ops" and n: "never_not_found rm"
    and r: "(case fs_unlink ops p s1 of
               Inr s2 \<Rightarrow> Some (Inr (), s2)
             | Inl er \<Rightarrow>
                 if code er = ''EPERM'' then
                   (if isWindows then fixWinEPERM rm ops p er s1
                    else removeDir rm ops p (FsError er) s1)
                 else if code er = ''EISDIR'' then removeDir rm ops p (FsError er) s1
                 else Some (Inl (FsError er), s1)) = Some out"
  shows "leaves_absent ops p out"
proof (cases "fs_unlink ops p s1")
  case (Inr s2)
  with r c show ?thesis
    by (auto simp: leaves_absent_def dest: consistent_unlink_ok)
next
  case (Inl er)
  consider (perm_win) "code er = ''EPERM''" "isWindows"
    | (perm) "code er = ''EPERM''" "\<not> isWindows"
    | (isdir) "code er \<noteq> ''EPERM''" "code er = ''EISDIR''"
    | (other) "code er \<noteq> ''EPERM''" "code er \<noteq> ''EISDIR''"
    by blast
  then show ?thesis
  proof cases
    case perm_win
    with r Inl have "fixWinEPERM rm ops p er s1 = Some out" by simp
    with c n perm_win show ?thesis
      by (intro fixWinEPERM_leaves_absent [of ops rm er p s1 out]) simp_all
  next
    case perm
    with r Inl have "removeDir rm ops p (FsError er) s1 = Some out" by simp
    with c n perm show ?thesis
      by (intro removeDir_leaves_absent [of ops rm "FsError er" p s1 out]) simp_all
  next
    case isdir
    with r Inl have "removeDir rm ops p (FsError er) s1 = Some out" by simp
    with c n isdir show ?thesis
      by (intro removeDir_leaves_absent [of ops rm "FsError er" p s1 out]) simp_all
  next
    case other
    with r Inl have "out = (Inl (FsError er), s1)" by simp
    with c Inl show ?thesis
      by (auto simp: leaves_absent_def dest: consistent_unlink_err)
  qed
qed


lemma rimraf_leaves_absent:
  assumes c: "consistent_fs ops" and n: "never_not_found rm"
    and r: "rimraf rm ops isWindows p s = Some out"
  shows "leaves_absent ops p out"
proof (cases "fs_lstat ops p s")
  case (Inr st)
  show ?thesis
  proof (cases "isDirectory st")
    case True
    with r Inr have "removeDir rm ops p Null s = Some out"
      by (simp add: rimraf_def)
    with c n show ?thesis
      by (intro removeDir_leaves_absent [of ops rm Null p s out]) simp_all
  next
    case False
    with r Inr show ?thesis
      by (intro unlink_step_leaves_absent [OF c n, where isWindows = isWindows and ?s1.0 = s]) (simp add: rimraf_def)
  qed
next
  case (Inl er)
  show ?thesis
  proof (cases "code er = ''EPERM'' \<and> isWindows")
    case False
    with r Inl have "out = (Inl (FsError er), s)"
      by (auto simp: rimraf_def)
    with Inl show ?thesis
      by (simp add: leaves_absent_def absent_def)
  next
    case True
    show ?thesis
    proof (cases "fixWinEPERM rm ops p er s")
      case None
      with r Inl True show ?thesis by (simp add: rimraf_def)
    next
      case (Some fixed)
      obtain res s1 where fixed: "fixed = (res, s1)" by (cases fixed)
      from True have "code er \<noteq> ''ENOENT''" by simp
      with c n Some have la: "leaves_absent ops p fixed"
        by (intro fixWinEPERM_leaves_absent [of ops rm er p s fixed]) simp_all
      show ?thesis
      proof (cases res)
        case (Inl e)
        with r \<open>fs_lstat ops p s = Inl er\<close> True Some fixed have "out = fixed"
          by (simp add: rimraf_def)
        with la show ?thesis by simp
      next
        case (Inr u)
        with r \<open>fs_lstat ops p s = Inl er\<close> True Some fixed show ?thesis
          by (intro unlink_step_leaves_absent [OF c n, where isWindows = True and ?s1.0 = s1]) (simp add: rimraf_def)
      qed
    qed
  qed
qed

lemma never_not_found_remove: "never_not_found (remove engine)"
  by (auto simp: never_not_found_def remove_def split: option.splits sum.splits thrown.splits if_splits)

lemma never_not_found_none: "never_not_found (\<lambda>_ _. None)"
  by (simp add: never_not_found_def)

lemma remove_success_absent:
  assumes e: "engine p s = Some out" and la: "leaves_absent ops p out"
    and r: "remove engine p s = Some (Inr (), s')"
  shows "absent ops p s'"
  using assms
  by (auto simp: remove_def leaves_absent_def split: sum.splits thrown.splits if_splits)

lemma remove_Some_engine: "remove engine p s = Some res \<Longrightarrow> \<exists>out. engine p s = Some out"
  by (cases "engine p s") (simp_all add: remove_def)

lemma remove_n_success_absent:
  assumes c: "consistent_fs ops" and r: "remove_n n ops isWindows p s = Some (Inr (), s')"
  shows "absent ops p s'"
proof (cases n)
  case 0
  with r have r0: "remove (rimraf (\<lambda>_ _. None) ops isWindows) p s = Some (Inr (), s')" by simp
  from remove_Some_engine [OF r0]
  obtain out where o: "rimraf (\<lambda>_ _. None) ops isWindows p s = Some out"
    by auto
  from c never_not_found_none o have la: "leaves_absent ops p out"
    by (rule rimraf_leaves_absent)
  from o la r0 show ?thesis by (rule remove_success_absent)
next
  case (Suc k)
  with r have r1: "remove (rimraf (remove_n k ops isWindows) ops isWindows) p s = Some (Inr (), s')"
    by simp
  from remove_Some_engine [OF r1]
  obtain out where o: "rimraf (remove_n k ops isWindows) ops isWindows p s = Some out"
    by auto
  have nf: "never_not_found (remove_n k ops isWindows)"
    by (cases k) (simp_all add: never_not_found_remove)
  from c nf o have la: "leaves_absent ops p out"
    by (rule rimraf_leaves_absent)
  from o la r1 show ?thesis by (rule remove_success_absent)
qed

lemma rimraf_absent_rejects:
  "fs_lstat ops p s = Inl er \<Longrightarrow> code er = ''ENOENT'' \<Longrightarrow>
   rimraf rm ops isWindows p s = Some (Inl (FsError er), s)"
  by (simp add: rimraf_def)

lemma remove_n_absent:
  "absent ops p s \<Longrightarrow> remove_n n ops isWindows p s = Some (Inr (), s)"
  by (cases n) (auto simp: absent_def remove_def rimraf_def split: sum.splits)

text \<open>
  Claim C1. For every path that is absent, \<^verbatim>\<open>remove\<close> succeeds and leaves the
  filesystem as it is. So a second \<^verbatim>\<open>remove\<close> of the same path does not fail: on a
  filesystem layer that is consistent about absence, a \<^verbatim>\<open>remove\<close> that has succeeded
  has left the path absent, and a further \<^verbatim>\<open>remove\<close> of it succeeds and changes
  nothing.
\<close>

theorem remove_absent_is_success:
  "(absent ops myPath s \<longrightarrow> remove_n n ops isWindows myPath s = Some (Inr (), s))
   \<and> (consistent_fs ops \<and> remove_n n ops isWindows myPath s = Some (Inr (), s') \<longrightarrow>
        remove_n m ops isWindows myPath s' = Some (Inr (), s'))"
proof (intro conjI impI)
  show "remove_n n ops isWindows myPath s = Some (Inr (), s)" if "absent ops myPath s"
    using that by (rule remove_n_absent)
  show "remove_n m ops isWindows myPath s' = Some (Inr (), s')"
    if "consistent_fs ops \<and> remove_n n ops isWindows myPath s = Some (Inr (), s')"
  proof -
    from that have c: "consistent_fs ops"
      and r: "remove_n n ops isWindows myPath s = Some (Inr (), s')"
      by simp_all
    from c r have "absent ops myPath s'"
      by (rule remove_n_success_absent)
    then show ?thesis by (rule remove_n_absent)
  qed
qed

lemma mem_lookup_not_found:
  "mem_lookup syscall p s = Inl er \<Longrightarrow> code er = ''ENOENT'' \<Longrightarrow> absent mem_fs p s"
  by (auto simp: mem_lookup_def mem_error_def absent_def mem_fs_def mem_lstat_def
           split: option.splits node.splits)

lemma mem_deleted_absent:
  assumes "mem_lookup syscall p s = Inr nd"
  shows "absent mem_fs p (AList.delete p s)"
proof -
  from assms have parent: "\<forall>c m. map_of s (dirname p) \<noteq> Some (NFile c m)"
    by (auto simp: mem_lookup_def split: option.splits node.splits)
  have gone: "map_of (AList.delete p s) p = None"
    by (simp add: AList.delete_conv')
  have "map_of (AList.delete p s) (dirname p) = (if dirname p = p then None else map_of s (dirname p))"
    by (simp add: AList.delete_conv')
  with parent have "\<forall>c m. map_of (AList.delete p s) (dirname p) \<noteq> Some (NFile c m)"
    by simp
  with gone show ?thesis
    by (auto simp: absent_def mem_fs_def mem_lstat_def mem_lookup_def mem_error_def
             split: option.splits node.splits)
qed

lemma mem_fs_consistent: "consistent_fs mem_fs"
proof -
  have u: "case fs_unlink mem_fs p s of
             Inr s' \<Rightarrow> absent mem_fs p s'
           | Inl er \<Rightarrow> code er = ''ENOENT'' \<longrightarrow> absent mem_fs p s" for p s
  proof (cases "mem_lookup ''unlink'' p s")
    case (Inl er)
    then show ?thesis
      by (auto simp: mem_fs_def mem_unlink_def dest: mem_lookup_not_found)
  next
    case (Inr nd)
    then show ?thesis
      using mem_deleted_absent [OF Inr]
      by (cases nd) (simp_all add: mem_fs_def mem_unlink_def mem_error_def)
  qed
  have r: "case fs_rmdir mem_fs p s of
             Inr s' \<Rightarrow> absent mem_fs p s'
           | Inl er \<Rightarrow> code er = ''ENOENT'' \<longrightarrow> absent mem_fs p s" for p s
  proof (cases "mem_lookup ''rmdir'' p s")
    case (Inl er)
    then show ?thesis
      by (auto simp: mem_fs_def mem_rmdir_def dest: mem_lookup_not_found)
  next
    case (Inr nd)
    then show ?thesis
      using mem_deleted_absent [OF Inr]
      by (cases nd) (simp_all add: mem_fs_def mem_rmdir_def mem_error_def)
  qed
  have d: "case fs_readdir mem_fs p s of
             Inr _ \<Rightarrow> True
           | Inl er \<Rightarrow> code er = ''ENOENT'' \<longrightarrow> absent mem_fs p s" for p s
  proof (cases "mem_lookup ''scandir'' p s")
    case (Inl er)
    then show ?thesis
      by (auto simp: mem_fs_def mem_readdir_def dest: mem_lookup_not_found)
  next
    case (Inr nd)
    then show ?thesis
      by (cases nd) (simp_all add: mem_fs_def mem_readdir_def mem_error_def)
  qed
  from u r d show ?thesis
    unfolding consistent_fs_def by blast
qed

theorem remove_absent_is_success_witness:
  "absent mem_fs ''/gone'' scan_tree
   \<and> remove_n 0 mem_fs False ''/gone'' scan_tree = Some (Inr (), scan_tree)
   \<and> remove_n 2 mem_fs False ''/r'' scan_tree = Some (Inr (), [(''/'', NDir 493)])
   \<and> remove_n 2 mem_fs False ''/r'' [(''/'', NDir 493)] = Some (Inr (), [(''/'', NDir 493)])"
proof -
  have a: "absent mem_fs ''/gone'' scan_tree"
    by code_simp
  have first: "remove_n 2 mem_fs False ''/r'' scan_tree = Some (Inr (), [(''/'', NDir 493)])"
    by code_simp
  have b: "remove_n 0 mem_fs False ''/gone'' scan_tree = Some (Inr (), scan_tree)"
    using remove_absent_is_success [of mem_fs "''/gone''" scan_tree 0 False] a by simp
  have c: "remove_n 2 mem_fs False ''/r'' [(''/'', NDir 493)] = Some (Inr (), [(''/'', NDir 493)])"
    using remove_absent_is_success [of mem_fs "''/r''" scan_tree 2 False "[(''/'', NDir 493)]" 2]
      mem_fs_consistent first by simp
  from a b c first show ?thesis by simp
qed


end
